theory Spec2Isabelle
  imports Main "HOL-Library.Sublist" "HOL-Library.Char_ord" "HOL-Library.List_Lexorder"
    "HOL-Library.Product_Lexorder"
begin

section \<open>Strings\<close>

text \<open>
  Python strings are modelled as \<open>string\<close>; a character stands for one code point
  below 256.  The helpers below are the string methods the scripts call.
\<close>

text \<open>\<^verbatim>\<open>str.split(sep)\<close> for a one-character separator: never returns the empty list.\<close>

fun split_on :: "char \<Rightarrow> string \<Rightarrow> string list" where
  "split_on c [] = [[]]"
| "split_on c (x # xs) =
     (if x = c then [] # split_on c xs
      else (case split_on c xs of [] \<Rightarrow> [[x]] | y # ys \<Rightarrow> (x # y) # ys))"

text \<open>\<^verbatim>\<open>sep.join(items)\<close>.\<close>

fun join_with :: "string \<Rightarrow> string list \<Rightarrow> string" where
  "join_with sep [] = []"
| "join_with sep [x] = x"
| "join_with sep (x # y # ys) = x @ sep @ join_with sep (y # ys)"

text \<open>\<^verbatim>\<open>str.strip(chars)\<close>: drop the characters of a class from both ends.\<close>

definition strip_chars :: "(char \<Rightarrow> bool) \<Rightarrow> string \<Rightarrow> string" where
  "strip_chars P s = rev (dropWhile P (rev (dropWhile P s)))"

text \<open>The characters \<^verbatim>\<open>str.strip()\<close> removes (\<^verbatim>\<open>str.isspace\<close>), for code points below 256.\<close>

definition is_space :: "char \<Rightarrow> bool" where
  "is_space c = ((of_char c :: nat) \<in> {9, 10, 11, 12, 13, 28, 29, 30, 31, 32, 133, 160})"

text \<open>\<^verbatim>\<open>str(n)\<close> for a non-negative integer: its decimal digits.\<close>

definition digit_char :: "nat \<Rightarrow> char" where
  "digit_char d = ''0123456789'' ! d"

fun str_nat :: "nat \<Rightarrow> string" where
  "str_nat n = (if n < 10 then [digit_char n] else str_nat (n div 10) @ [digit_char (n mod 10)])"

declare str_nat.simps [simp del]



section \<open>The slug sanitizer (\<^verbatim>\<open>git_worktree_isolation._sanitize_slug\<close>)\<close>

text \<open>The character class \<^verbatim>\<open>[A-Za-z0-9._-]\<close> of the regular expression.\<close>

definition alnum_char :: "char \<Rightarrow> bool" where
  "alnum_char c =
     (c \<in> set ''ABCDEFGHIJKLMNOPQRSTUVWXYZabcdefghijklmnopqrstuvwxyz0123456789'')"

text \<open>The characters \<^verbatim>\<open>strip("-_.")\<close> removes.\<close>

definition separator_char :: "char \<Rightarrow> bool" where
  "separator_char c = (c \<in> set ''-_.'')"

definition safe_char :: "char \<Rightarrow> bool" where
  "safe_char c = (alnum_char c \<or> c \<in> set ''._-'')"

text \<open>
  \<^verbatim>\<open>re.sub(r"[^A-Za-z0-9._-]+", "-", s)\<close>: every maximal run of characters outside
  the class is replaced by one dash.
\<close>

function sub_unsafe :: "string \<Rightarrow> string" where
  "sub_unsafe [] = []"
| "sub_unsafe (c # cs) =
     (if safe_char c then c # sub_unsafe cs
      else CHR ''-'' # sub_unsafe (dropWhile (\<lambda>d. \<not> safe_char d) cs))"
  by pat_completeness auto
termination
  by (relation "measure length") (auto simp: less_Suc_eq_le length_dropWhile_le)

text \<open>
  \<^verbatim>\<open>
  def _sanitize_slug(raw):
      cleaned = re.sub(r"[^A-Za-z0-9._-]+", "-", raw.strip())
      cleaned = cleaned.strip("-_.")
      return cleaned or "paper"
  \<close>
\<close>

definition sanitize_slug :: "string \<Rightarrow> string" where
  "sanitize_slug raw =
     (let cleaned = sub_unsafe (strip_chars is_space raw);
          cleaned = strip_chars separator_char cleaned
      in if cleaned = [] then ''paper'' else cleaned)"

text \<open>
  The sanitizer as the specification words it, for comparison: characters outside the
  alphabet are stripped (deleted), separators are trimmed from both ends, and a default
  token stands in for an empty result.
\<close>

definition sanitizeIdentifier_spec :: "string \<Rightarrow> string" where
  "sanitizeIdentifier_spec raw =
     (let cleaned = strip_chars separator_char (filter safe_char raw)
      in if cleaned = [] then ''paper'' else cleaned)"

text \<open>
  A string cut into the words of a list, with the gaps of a second list between them:
  \<open>weave [w\<^sub>1, w\<^sub>2, w\<^sub>3] [g\<^sub>1, g\<^sub>2] = w\<^sub>1 @ g\<^sub>1 @ w\<^sub>2 @ g\<^sub>2 @ w\<^sub>3\<close>.  It is used to
  say what the sanitizer does with each run of characters outside the alphabet.
\<close>

fun weave :: "string list \<Rightarrow> string list \<Rightarrow> string" where
  "weave (w # w' # ws) (g # gs) = w @ g @ weave (w' # ws) gs"
| "weave (w # ws) gs = w"
| "weave [] gs = []"

definition or_paper :: "string \<Rightarrow> string" where
  "or_paper cleaned = (if cleaned = [] then ''paper'' else cleaned)"


section \<open>Exceptions\<close>

text \<open>
  The exceptions the scripts raise or meet, with their message (\<^verbatim>\<open>str(exc)\<close>).
  \<open>OtherError\<close> carries the class name of any other exception the operating system
  or a library call raises.
\<close>

datatype exn =
    ValueError string
  | FileNotFoundError string
  | OSError string
  | SyntaxError string
  | ZeroDivisionError string
  | OverflowError string
  | TypeError string
  | OtherError string string

fun str_exn :: "exn \<Rightarrow> string" where
  "str_exn (ValueError m) = m"
| "str_exn (FileNotFoundError m) = m"
| "str_exn (OSError m) = m"
| "str_exn (SyntaxError m) = m"
| "str_exn (ZeroDivisionError m) = m"
| "str_exn (OverflowError m) = m"
| "str_exn (TypeError m) = m"
| "str_exn (OtherError c m) = m"

fun is_ValueError :: "exn \<Rightarrow> bool" where
  "is_ValueError (ValueError m) = True"
| "is_ValueError e = False"

section \<open>Paths (\<^verbatim>\<open>pathlib\<close> on POSIX)\<close>

text \<open>
  A path is its root (none, \<^verbatim>\<open>/\<close>, or the two slashes POSIX keeps apart) and its
  parts.  Parsing drops empty parts and \<^verbatim>\<open>.\<close>, and keeps \<^verbatim>\<open>..\<close>.
\<close>

datatype anchor = Relative | Root | DoubleRoot

datatype path = Path (anchor: anchor) (parts: "string list")

definition anchor_of :: "string \<Rightarrow> anchor" where
  "anchor_of s =
     (if take 1 s \<noteq> ''/'' then Relative
      else if take 2 s = ''//'' \<and> take 3 s \<noteq> ''///'' then DoubleRoot
      else Root)"

definition Path_of :: "string \<Rightarrow> path" where
  "Path_of s = Path (anchor_of s) (filter (\<lambda>p. p \<noteq> [] \<and> p \<noteq> ''.'') (split_on CHR ''/'' s))"

definition is_absolute :: "path \<Rightarrow> bool" where
  "is_absolute p = (anchor p \<noteq> Relative)"

text \<open>The operator \<^verbatim>\<open>a / b\<close>: an absolute right operand replaces the left one.\<close>

definition joinpath :: "path \<Rightarrow> path \<Rightarrow> path" where
  "joinpath a b = (if is_absolute b then b else Path (anchor a) (parts a @ parts b))"

definition str_path :: "path \<Rightarrow> string" where
  "str_path p =
     (case anchor p of
        Relative \<Rightarrow> (if parts p = [] then ''.'' else join_with ''/'' (parts p))
      | Root \<Rightarrow> ''/'' @ join_with ''/'' (parts p)
      | DoubleRoot \<Rightarrow> ''//'' @ join_with ''/'' (parts p))"


definition parent :: "path \<Rightarrow> path" where
  "parent p = Path (anchor p) (butlast (parts p))"

text \<open>
  \<^verbatim>\<open>is_relative_to\<close> and \<^verbatim>\<open>relative_to\<close>: the other path must have the same root and
  its parts must be a prefix; the comparison is lexical.
\<close>

definition is_relative_to :: "path \<Rightarrow> path \<Rightarrow> bool" where
  "is_relative_to p other = (anchor p = anchor other \<and> prefix (parts other) (parts p))"

definition relative_to :: "path \<Rightarrow> path \<Rightarrow> exn + path" where
  "relative_to p other =
     (if is_relative_to p other then Inr (Path Relative (drop (length (parts other)) (parts p)))
      else Inl (ValueError (str_path p @ '' is not in the subpath of '' @ str_path other)))"

text \<open>
  \<^verbatim>\<open>Path.resolve()\<close> asks the file system (symbolic links, the working directory), so
  the functions below take it as a parameter of type \<open>path \<Rightarrow> exn + path\<close>.
  \<open>lexical_resolve cwd\<close> is what it returns on a file system without symbolic links,
  for a process whose working directory is \<open>cwd\<close>: the path is made absolute, two
  leading slashes become one (\<^verbatim>\<open>os.path.realpath\<close> starts again from \<^verbatim>\<open>/\<close>), and
  each \<^verbatim>\<open>..\<close> removes the part before it (none at the root).
\<close>

definition dotdot_step :: "string list \<Rightarrow> string \<Rightarrow> string list" where
  "dotdot_step acc p = (if p = ''..'' then butlast acc else acc @ [p])"

definition lexical_resolve :: "path \<Rightarrow> path \<Rightarrow> exn + path" where
  "lexical_resolve cwd p =
     (let q = joinpath cwd p in
      if list_ex (\<lambda>s. CHR 0x00 \<in> set s) (parts q) then Inl (ValueError ''embedded null byte'')
      else Inr (Path (if anchor q = Relative then Relative else Root)
                  (foldl dotdot_step [] (parts q))))"

section \<open>Path containment (\<^verbatim>\<open>git_worktree_isolation.py\<close>)\<close>

text \<open>
  \<^verbatim>\<open>
  def _resolve_repo_relative(repo_root, raw_path):
      raw = Path(raw_path)
      abs_path = (repo_root / raw).resolve() if not raw.is_absolute() else raw.resolve()
      try:
          rel = abs_path.relative_to(repo_root).as_posix()
      except ValueError as exc:
          raise ValueError(f"Path must be under repository root: {abs_path}") from exc
      return abs_path, rel
  \<close>
\<close>

definition resolve_repo_relative ::
  "(path \<Rightarrow> exn + path) \<Rightarrow> path \<Rightarrow> string \<Rightarrow> exn + (path \<times> string)" where
  "resolve_repo_relative resolve repo_root raw_path =
     (let raw = Path_of raw_path in
      case (if \<not> is_absolute raw then resolve (joinpath repo_root raw) else resolve raw) of
        Inl e \<Rightarrow> Inl e
      | Inr abs_path \<Rightarrow>
          (case relative_to abs_path repo_root of
             Inl exc \<Rightarrow>
               Inl (ValueError (''Path must be under repository root: '' @ str_path abs_path))
           | Inr rel \<Rightarrow> Inr (abs_path, str_path rel)))"

text \<open>
  \<^verbatim>\<open>
  def _resolve_under_root(root, raw_path, label):
      raw = Path(raw_path)
      if raw.is_absolute():
          raise ValueError(f"{label} must be a relative path under {root}: {raw_path}")
      abs_path = (root / raw).resolve()
      try:
          abs_path.relative_to(root)
      except ValueError as exc:
          raise ValueError(f"{label} escapes {root}: {raw_path}") from exc
      return abs_path
  \<close>
\<close>

definition resolve_under_root ::
  "(path \<Rightarrow> exn + path) \<Rightarrow> path \<Rightarrow> string \<Rightarrow> string \<Rightarrow> exn + path" where
  "resolve_under_root resolve root raw_path label =
     (let raw = Path_of raw_path in
      if is_absolute raw then
        Inl (ValueError (label @ '' must be a relative path under '' @ str_path root @ '': ''
                           @ raw_path))
      else
        (case resolve (joinpath root raw) of
           Inl e \<Rightarrow> Inl e
         | Inr abs_path \<Rightarrow>
             (case relative_to abs_path root of
                Inl exc \<Rightarrow>
                  Inl (ValueError (label @ '' escapes '' @ str_path root @ '': '' @ raw_path))
              | Inr rel \<Rightarrow> Inr abs_path)))"

section \<open>The sandbox manifest (\<^verbatim>\<open>_build_sandbox_paths\<close>)\<close>

text \<open>
  \<^verbatim>\<open>
  def _build_sandbox_paths(wt_path, paper_rel, skill_rel, output_dir):
      paper_path = (wt_path / paper_rel).resolve()
      output_path = (wt_path / output_dir).resolve()
      skill_root = (wt_path / skill_rel).resolve()
      allowed_rw = [str(paper_path), str(output_path)]
      allowed_ro = [str(skill_root / "SKILL.md"), str(skill_root / "references"),
                    str(skill_root / "scripts")]
      entry_cwd = str(paper_path)
      return allowed_rw, allowed_ro, entry_cwd
  \<close>
\<close>

definition build_sandbox_paths ::
  "(path \<Rightarrow> exn + path) \<Rightarrow> path \<Rightarrow> string \<Rightarrow> string \<Rightarrow> string
     \<Rightarrow> exn + (string list \<times> string list \<times> string)" where
  "build_sandbox_paths resolve wt_path paper_rel skill_rel output_dir =
     (case resolve (joinpath wt_path (Path_of paper_rel)) of
        Inl e \<Rightarrow> Inl e
      | Inr paper_path \<Rightarrow>
     (case resolve (joinpath wt_path (Path_of output_dir)) of
        Inl e \<Rightarrow> Inl e
      | Inr output_path \<Rightarrow>
     (case resolve (joinpath wt_path (Path_of skill_rel)) of
        Inl e \<Rightarrow> Inl e
      | Inr skill_root \<Rightarrow>
          Inr ([str_path paper_path, str_path output_path],
               [str_path (joinpath skill_root (Path_of ''SKILL.md'')),
                str_path (joinpath skill_root (Path_of ''references'')),
                str_path (joinpath skill_root (Path_of ''scripts''))],
               str_path paper_path))))"

section \<open>Branch and worktree names (\<^verbatim>\<open>_create\<close>, lines 127 to 131)\<close>




section \<open>The arithmetic evaluator (\<^verbatim>\<open>safe_calc.py\<close>)\<close>

text \<open>
  The syntax trees \<^verbatim>\<open>ast.parse(..., mode="eval")\<close> returns: the binary and unary
  operator classes of the \<^verbatim>\<open>ast\<close> module, the kinds of value a \<^verbatim>\<open>Constant\<close> node
  holds, and the expression nodes.  \<open>ast_Other\<close> stands for every node class without a
  constructor of its own (\<^verbatim>\<open>BoolOp\<close>, \<^verbatim>\<open>IfExp\<close>, \<^verbatim>\<open>Lambda\<close>, \<^verbatim>\<open>List\<close>, ...) and carries
  its class name.  The type \<open>'f\<close> is Python's \<^verbatim>\<open>float\<close>.
\<close>

datatype operator =
    ast_Add | ast_Sub | ast_Mult | ast_MatMult | ast_Div | ast_Mod | ast_Pow
  | ast_LShift | ast_RShift | ast_BitOr | ast_BitXor | ast_BitAnd | ast_FloorDiv

datatype unaryop = ast_Invert | ast_Not | ast_UAdd | ast_USub

datatype 'f const_value =
    IntConst int
  | FloatConst 'f
  | BoolConst bool
  | ComplexConst
  | StrConst string
  | BytesConst
  | NoneConst
  | EllipsisConst

datatype 'f node =
    ast_Constant "'f const_value"
  | ast_Name string
  | ast_BinOp "'f node" operator "'f node"
  | ast_UnaryOp unaryop "'f node"
  | ast_Call "'f node" "'f node list"
  | ast_Attribute "'f node" string
  | ast_Compare "'f node" "'f node list"
  | ast_Subscript "'f node" "'f node"
  | ast_Other string "'f node list"

text \<open>\<^verbatim>\<open>type(x).__name__\<close> for operators, constants and nodes.\<close>

fun operator_name :: "operator \<Rightarrow> string" where
  "operator_name ast_Add = ''Add''"
| "operator_name ast_Sub = ''Sub''"
| "operator_name ast_Mult = ''Mult''"
| "operator_name ast_MatMult = ''MatMult''"
| "operator_name ast_Div = ''Div''"
| "operator_name ast_Mod = ''Mod''"
| "operator_name ast_Pow = ''Pow''"
| "operator_name ast_LShift = ''LShift''"
| "operator_name ast_RShift = ''RShift''"
| "operator_name ast_BitOr = ''BitOr''"
| "operator_name ast_BitXor = ''BitXor''"
| "operator_name ast_BitAnd = ''BitAnd''"
| "operator_name ast_FloorDiv = ''FloorDiv''"

fun unaryop_name :: "unaryop \<Rightarrow> string" where
  "unaryop_name ast_Invert = ''Invert''"
| "unaryop_name ast_Not = ''Not''"
| "unaryop_name ast_UAdd = ''UAdd''"
| "unaryop_name ast_USub = ''USub''"

fun constant_type_name :: "'f const_value \<Rightarrow> string" where
  "constant_type_name (IntConst i) = ''int''"
| "constant_type_name (FloatConst x) = ''float''"
| "constant_type_name (BoolConst b) = ''bool''"
| "constant_type_name ComplexConst = ''complex''"
| "constant_type_name (StrConst s) = ''str''"
| "constant_type_name BytesConst = ''bytes''"
| "constant_type_name NoneConst = ''NoneType''"
| "constant_type_name EllipsisConst = ''ellipsis''"

fun node_class_name :: "'f node \<Rightarrow> string" where
  "node_class_name (ast_Constant v) = ''Constant''"
| "node_class_name (ast_Name x) = ''Name''"
| "node_class_name (ast_BinOp l op r) = ''BinOp''"
| "node_class_name (ast_UnaryOp op x) = ''UnaryOp''"
| "node_class_name (ast_Call f args) = ''Call''"
| "node_class_name (ast_Attribute v a) = ''Attribute''"
| "node_class_name (ast_Compare l rs) = ''Compare''"
| "node_class_name (ast_Subscript v s) = ''Subscript''"
| "node_class_name (ast_Other c ns) = c"

text \<open>
  Python's float arithmetic is not part of the repository: the evaluator is modelled over
  any implementation of it.  \<open>float_of_int\<close> is \<^verbatim>\<open>float(n)\<close> (an \<^verbatim>\<open>OverflowError\<close> for
  an integer too large); each binary field is the function of the \<^verbatim>\<open>operator\<close> module
  followed by the conversion \<^verbatim>\<open>float(...)\<close> of its result, with the exceptions either
  raises (division by zero, overflow, a complex power).
\<close>

record 'f float_ops =
  float_of_int :: "int \<Rightarrow> exn + 'f"
  operator_add :: "'f \<Rightarrow> 'f \<Rightarrow> exn + 'f"
  operator_sub :: "'f \<Rightarrow> 'f \<Rightarrow> exn + 'f"
  operator_mul :: "'f \<Rightarrow> 'f \<Rightarrow> exn + 'f"
  operator_truediv :: "'f \<Rightarrow> 'f \<Rightarrow> exn + 'f"
  operator_pow :: "'f \<Rightarrow> 'f \<Rightarrow> exn + 'f"
  operator_mod :: "'f \<Rightarrow> 'f \<Rightarrow> exn + 'f"
  operator_floordiv :: "'f \<Rightarrow> 'f \<Rightarrow> exn + 'f"
  operator_pos :: "'f \<Rightarrow> 'f"
  operator_neg :: "'f \<Rightarrow> 'f"

text \<open>
  \<^verbatim>\<open>
  ALLOWED_BIN_OPS = {ast.Add: operator.add, ast.Sub: operator.sub, ast.Mult: operator.mul,
      ast.Div: operator.truediv, ast.Pow: operator.pow, ast.Mod: operator.mod,
      ast.FloorDiv: operator.floordiv}
  ALLOWED_UNARY_OPS = {ast.UAdd: operator.pos, ast.USub: operator.neg}
  \<close>
\<close>

definition ALLOWED_BIN_OPS :: "'f float_ops \<Rightarrow> operator \<rightharpoonup> ('f \<Rightarrow> 'f \<Rightarrow> exn + 'f)" where
  "ALLOWED_BIN_OPS ops =
     map_of [(ast_Add, operator_add ops), (ast_Sub, operator_sub ops),
             (ast_Mult, operator_mul ops), (ast_Div, operator_truediv ops),
             (ast_Pow, operator_pow ops), (ast_Mod, operator_mod ops),
             (ast_FloorDiv, operator_floordiv ops)]"

definition ALLOWED_UNARY_OPS :: "'f float_ops \<Rightarrow> unaryop \<rightharpoonup> ('f \<Rightarrow> 'f)" where
  "ALLOWED_UNARY_OPS ops = map_of [(ast_UAdd, operator_pos ops), (ast_USub, operator_neg ops)]"

text \<open>
  \<^verbatim>\<open>
  def _eval_node(node, variables):
      if isinstance(node, ast.Constant):
          if isinstance(node.value, (int, float)):
              return float(node.value)
          raise ValueError(f"Unsupported constant type: {type(node.value).__name__}")
      if isinstance(node, ast.Name):
          if node.id not in variables:
              raise ValueError(f"Unknown variable: {node.id}")
          return float(variables[node.id])
      if isinstance(node, ast.BinOp):
          op_type = type(node.op)
          if op_type not in ALLOWED_BIN_OPS:
              raise ValueError(f"Unsupported operator: {op_type.__name__}")
          left = _eval_node(node.left, variables)
          right = _eval_node(node.right, variables)
          return float(ALLOWED_BIN_OPS[op_type](left, right))
      if isinstance(node, ast.UnaryOp):
          op_type = type(node.op)
          if op_type not in ALLOWED_UNARY_OPS:
              raise ValueError(f"Unsupported unary operator: {op_type.__name__}")
          operand = _eval_node(node.operand, variables)
          return float(ALLOWED_UNARY_OPS[op_type](operand))
      raise ValueError(f"Unsupported expression node: {type(node).__name__}")
  \<close>
  \<^verbatim>\<open>bool\<close> is a subclass of \<^verbatim>\<open>int\<close>, so \<^verbatim>\<open>isinstance(True, (int, float))\<close> holds and
  \<^verbatim>\<open>float(True)\<close> is \<^verbatim>\<open>float(1)\<close>.
\<close>

fun eval_node :: "'f float_ops \<Rightarrow> 'f node \<Rightarrow> (string \<rightharpoonup> 'f) \<Rightarrow> exn + 'f" where
  "eval_node ops (ast_Constant v) variables =
     (case v of
        IntConst i \<Rightarrow> float_of_int ops i
      | FloatConst x \<Rightarrow> Inr x
      | BoolConst b \<Rightarrow> float_of_int ops (if b then 1 else 0)
      | _ \<Rightarrow> Inl (ValueError (''Unsupported constant type: '' @ constant_type_name v)))"
| "eval_node ops (ast_Name x) variables =
     (case variables x of
        None \<Rightarrow> Inl (ValueError (''Unknown variable: '' @ x))
      | Some val \<Rightarrow> Inr val)"
| "eval_node ops (ast_BinOp l op r) variables =
     (case ALLOWED_BIN_OPS ops op of
        None \<Rightarrow> Inl (ValueError (''Unsupported operator: '' @ operator_name op))
      | Some f \<Rightarrow>
          (case eval_node ops l variables of
             Inl e \<Rightarrow> Inl e
           | Inr left \<Rightarrow>
               (case eval_node ops r variables of
                  Inl e \<Rightarrow> Inl e
                | Inr right \<Rightarrow> f left right)))"
| "eval_node ops (ast_UnaryOp op x) variables =
     (case ALLOWED_UNARY_OPS ops op of
        None \<Rightarrow> Inl (ValueError (''Unsupported unary operator: '' @ unaryop_name op))
      | Some f \<Rightarrow>
          (case eval_node ops x variables of
             Inl e \<Rightarrow> Inl e
           | Inr operand \<Rightarrow> Inr (f operand)))"
| "eval_node ops n variables =
     Inl (ValueError (''Unsupported expression node: '' @ node_class_name n))"

text \<open>
  \<^verbatim>\<open>
  def safe_eval(expression, variables):
      try:
          tree = ast.parse(expression.strip(), mode="eval")
      except SyntaxError as exc:
          raise ValueError(f"Invalid expression syntax: {exc}") from exc
      return _eval_node(tree.body, variables)
  \<close>
  The parser of the \<^verbatim>\<open>ast\<close> module is a parameter: it returns the body of the parsed
  expression or the exception it raises.
\<close>

definition safe_eval ::
  "(string \<Rightarrow> exn + 'f node) \<Rightarrow> 'f float_ops \<Rightarrow> string \<Rightarrow> (string \<rightharpoonup> 'f) \<Rightarrow> exn + 'f" where
  "safe_eval ast_parse ops expression variables =
     (case ast_parse (strip_chars is_space expression) of
        Inl (SyntaxError m) \<Rightarrow> Inl (ValueError (''Invalid expression syntax: '' @ m))
      | Inl e \<Rightarrow> Inl e
      | Inr body \<Rightarrow> eval_node ops body variables)"

text \<open>
  The expressions the evaluator accepts: constants of type \<^verbatim>\<open>int\<close>, \<^verbatim>\<open>float\<close> and
  \<^verbatim>\<open>bool\<close> (the test \<^verbatim>\<open>isinstance(value, (int, float))\<close>), names bound in the variable
  map, the seven binary operations and unary plus and minus, over accepted operands.
  \<open>supported_form\<close> is the same test on the outermost node alone.
\<close>

fun accepted_constant :: "'f const_value \<Rightarrow> bool" where
  "accepted_constant (IntConst i) = True"
| "accepted_constant (FloatConst x) = True"
| "accepted_constant (BoolConst b) = True"
| "accepted_constant v = False"

definition arithmetic_operator :: "operator \<Rightarrow> bool" where
  "arithmetic_operator op =
     (op \<in> set [ast_Add, ast_Sub, ast_Mult, ast_Div, ast_Pow, ast_Mod, ast_FloorDiv])"

definition sign_operator :: "unaryop \<Rightarrow> bool" where
  "sign_operator op = (op \<in> set [ast_UAdd, ast_USub])"

fun arithmetic_expr :: "(string \<rightharpoonup> 'f) \<Rightarrow> 'f node \<Rightarrow> bool" where
  "arithmetic_expr variables (ast_Constant v) = accepted_constant v"
| "arithmetic_expr variables (ast_Name x) = (variables x \<noteq> None)"
| "arithmetic_expr variables (ast_BinOp l op r) =
     (arithmetic_operator op \<and> arithmetic_expr variables l \<and> arithmetic_expr variables r)"
| "arithmetic_expr variables (ast_UnaryOp op x) =
     (sign_operator op \<and> arithmetic_expr variables x)"
| "arithmetic_expr variables n = False"

fun supported_form :: "(string \<rightharpoonup> 'f) \<Rightarrow> 'f node \<Rightarrow> bool" where
  "supported_form variables (ast_Constant v) = accepted_constant v"
| "supported_form variables (ast_Name x) = (variables x \<noteq> None)"
| "supported_form variables (ast_BinOp l op r) = arithmetic_operator op"
| "supported_form variables (ast_UnaryOp op x) = sign_operator op"
| "supported_form variables n = False"

text \<open>
  An arithmetic to evaluate examples with: the operations on the integers, with Python's
  exceptions for a zero divisor.  A quotient that is not an integer and a negative
  exponent lie outside it.
\<close>

definition integer_ops :: "int float_ops" where
  "integer_ops =
     \<lparr> float_of_int = (\<lambda>i. Inr i),
       operator_add = (\<lambda>x y. Inr (x + y)),
       operator_sub = (\<lambda>x y. Inr (x - y)),
       operator_mul = (\<lambda>x y. Inr (x * y)),
       operator_truediv =
         (\<lambda>x y. if y = 0 then Inl (ZeroDivisionError ''float division by zero'')
                else if y dvd x then Inr (x div y)
                else Inl (OverflowError ''quotient outside the integer arithmetic'')),
       operator_pow =
         (\<lambda>x y. if 0 \<le> y then Inr (x ^ nat y)
                else Inl (OverflowError ''exponent outside the integer arithmetic'')),
       operator_mod =
         (\<lambda>x y. if y = 0 then Inl (ZeroDivisionError ''float modulo'') else Inr (x mod y)),
       operator_floordiv =
         (\<lambda>x y. if y = 0 then Inl (ZeroDivisionError ''float divmod()'') else Inr (x div y)),
       operator_pos = (\<lambda>x. x),
       operator_neg = (\<lambda>x. - x) \<rparr>"

section \<open>The operating system, git and the command trace\<close>

text \<open>
  The scripts read the file system and spawn \<^verbatim>\<open>git\<close> and \<^verbatim>\<open>bwrap\<close>.  None of that is
  code of the repository, so the model is written over any operating system: a record
  of operations on an abstract world \<open>'w\<close>.  An operation that can raise returns the
  exception and the world it leaves behind.  \<open>sys_run\<close> is
  \<^verbatim>\<open>subprocess.run(cmd, check=False)\<close>; spawning the process itself is assumed to
  succeed (the scripts run \<^verbatim>\<open>git\<close> throughout, and \<^verbatim>\<open>bwrap\<close> was found by
  \<^verbatim>\<open>shutil.which\<close>).  \<open>sys_format\<close> is \<^verbatim>\<open>template.format(count=n)\<close>.
\<close>

record proc =
  returncode :: int
  stdout :: string
  stderr :: string

record 'w sys =
  sys_run :: "string list \<Rightarrow> 'w \<Rightarrow> proc \<times> 'w"
  sys_resolve :: "'w \<Rightarrow> path \<Rightarrow> exn + path"
  sys_exists :: "'w \<Rightarrow> path \<Rightarrow> bool"
  sys_is_dir :: "'w \<Rightarrow> path \<Rightarrow> bool"
  sys_is_file :: "'w \<Rightarrow> path \<Rightarrow> bool"
  sys_cwd :: "'w \<Rightarrow> path"
  sys_getpid :: "'w \<Rightarrow> nat"
  sys_strftime :: "'w \<Rightarrow> string"
  sys_which :: "'w \<Rightarrow> string \<Rightarrow> string option"
  sys_mkdir :: "path \<Rightarrow> 'w \<Rightarrow> exn option \<times> 'w"
  sys_rmtree :: "path \<Rightarrow> 'w \<Rightarrow> exn option \<times> 'w"
  sys_unlink :: "path \<Rightarrow> 'w \<Rightarrow> exn option \<times> 'w"
  sys_copytree :: "path \<Rightarrow> path \<Rightarrow> 'w \<Rightarrow> exn option \<times> 'w"
  sys_copy2 :: "path \<Rightarrow> path \<Rightarrow> 'w \<Rightarrow> exn option \<times> 'w"
  sys_format :: "string \<Rightarrow> int \<Rightarrow> exn + string"

text \<open>
  What a script prints: a \<^verbatim>\<open>[FAIL]\<close> line, or one JSON object
  (\<^verbatim>\<open>print(json.dumps(result))\<close>), kept as its list of fields.
\<close>

datatype json = JStr string | JInt int | JBool bool | JNull | JList "json list"

datatype printed_line = FailLine string | JsonLine "(string \<times> json) list"

text \<open>
  The state threaded through a script: the world, the commands spawned so far (in
  order) and the lines printed so far.  A script ends by returning an exit code or
  with an exception nobody caught.
\<close>

record 'w st =
  world :: 'w
  trace :: "string list list"
  printed :: "printed_line list"

datatype outcome = Return int | Uncaught exn

text \<open>
  \<^verbatim>\<open>
  def _fail(message, code=1):
      print(f"[FAIL] {message}")
      return code
  \<close>
\<close>

definition fail :: "string \<Rightarrow> int \<Rightarrow> 'w st \<Rightarrow> outcome \<times> 'w st" where
  "fail message code s = (Return code, s\<lparr>printed := printed s @ [FailLine message]\<rparr>)"

text \<open>
  \<^verbatim>\<open>
  def _run(cmd, cwd=None):
      return subprocess.run(cmd, cwd=..., check=False, text=True, capture_output=True)
  \<close>
\<close>

definition run :: "'w sys \<Rightarrow> string list \<Rightarrow> 'w st \<Rightarrow> proc \<times> 'w st" where
  "run sys cmd s =
     (let (p, w) = sys_run sys cmd (world s)
      in (p, s\<lparr>world := w, trace := trace s @ [cmd]\<rparr>))"

text \<open>\<^verbatim>\<open>a or b\<close> on strings, and \<^verbatim>\<open>proc.stderr.strip() or proc.stdout.strip()\<close>.\<close>

definition str_or :: "string \<Rightarrow> string \<Rightarrow> string" where
  "str_or a b = (if a = [] then b else a)"

definition proc_message :: "proc \<Rightarrow> string" where
  "proc_message p = str_or (strip_chars is_space (stderr p)) (strip_chars is_space (stdout p))"

text \<open>
  \<^verbatim>\<open>
  def _repo_root(cwd):
      proc = _run(["git", "-C", str(cwd), "rev-parse", "--show-toplevel"])
      if proc.returncode != 0:
          return None
      return Path(proc.stdout.strip()).resolve()
  \<close>
\<close>

definition repo_root :: "'w sys \<Rightarrow> path \<Rightarrow> 'w st \<Rightarrow> (exn + path option) \<times> 'w st" where
  "repo_root sys cwd s =
     (let (p, s1) = run sys [''git'', ''-C'', str_path cwd, ''rev-parse'', ''--show-toplevel''] s
      in if returncode p \<noteq> 0 then (Inr None, s1)
         else (case sys_resolve sys (world s1) (Path_of (strip_chars is_space (stdout p))) of
                 Inl e \<Rightarrow> (Inl e, s1)
               | Inr root \<Rightarrow> (Inr (Some root), s1)))"

text \<open>
  \<^verbatim>\<open>str.splitlines()\<close>: the line boundaries below 256 are LF, CR, CR LF, VT, FF, FS, GS,
  RS and NEL; no empty last line.
\<close>

definition is_linebreak :: "char \<Rightarrow> bool" where
  "is_linebreak c = ((of_char c :: nat) \<in> {10, 11, 12, 13, 28, 29, 30, 133})"

function splitlines :: "string \<Rightarrow> string list" where
  "splitlines s =
     (if s = [] then []
      else takeWhile (\<lambda>c. \<not> is_linebreak c) s #
        (case dropWhile (\<lambda>c. \<not> is_linebreak c) s of
           [] \<Rightarrow> []
         | c # cs \<Rightarrow>
             splitlines (if c = CHR 0x0D \<and> take 1 cs = [CHR 0x0A] then drop 1 cs else cs)))"
  by pat_completeness auto
termination
proof (relation "measure length")
  show "wf (measure length)" by simp
next
  fix s :: string and c cs
  assume "s \<noteq> []" and d: "dropWhile (\<lambda>c. \<not> is_linebreak c) s = c # cs"
  have "length (c # cs) \<le> length s" using length_dropWhile_le[of _ s] d by metis
  then show "(if c = CHR 0x0D \<and> take 1 cs = [CHR 0x0A] then drop 1 cs else cs, s) \<in> measure length"
    by auto
qed

declare splitlines.simps [simp del]

text \<open>A dictionary assignment \<^verbatim>\<open>d[key] = value\<close> on the fields of a JSON object.\<close>

fun dict_set :: "(string \<times> json) list \<Rightarrow> string \<Rightarrow> json \<Rightarrow> (string \<times> json) list" where
  "dict_set [] k v = [(k, v)]"
| "dict_set ((k', v') # d) k v = (if k' = k then (k, v) # d else (k', v') # dict_set d k v)"

section \<open>Checkpoint commits (\<^verbatim>\<open>checkpoint_output_commits.py\<close>)\<close>

text \<open>
  \<^verbatim>\<open>
  def _staged_files(repo_root):
      proc = _run(["git", "-C", str(repo_root), "diff", "--cached", "--name-only"])
      if proc.returncode != 0:
          return []
      return [line.strip() for line in proc.stdout.splitlines() if line.strip()]
  \<close>
\<close>

definition staged_files :: "'w sys \<Rightarrow> path \<Rightarrow> 'w st \<Rightarrow> string list \<times> 'w st" where
  "staged_files sys root s =
     (let (p, s1) = run sys [''git'', ''-C'', str_path root, ''diff'', ''--cached'', ''--name-only''] s
      in if returncode p \<noteq> 0 then ([], s1)
         else (filter (\<lambda>l. l \<noteq> []) (map (strip_chars is_space) (splitlines (stdout p))), s1))"

text \<open>
  \<^verbatim>\<open>
  def _current_branch(repo_root):
      proc = _run(["git", "-C", str(repo_root), "rev-parse", "--abbrev-ref", "HEAD"])
      if proc.returncode != 0:
          return None
      branch = proc.stdout.strip()
      if not branch or branch == "HEAD":
          return None
      return branch

  def _check_remote(repo_root, remote):
      proc = _run(["git", "-C", str(repo_root), "remote", "get-url", remote])
      return proc.returncode == 0
  \<close>
\<close>

definition current_branch :: "'w sys \<Rightarrow> path \<Rightarrow> 'w st \<Rightarrow> string option \<times> 'w st" where
  "current_branch sys root s =
     (let (p, s1) = run sys [''git'', ''-C'', str_path root, ''rev-parse'', ''--abbrev-ref'', ''HEAD''] s
      in if returncode p \<noteq> 0 then (None, s1)
         else (let branch = strip_chars is_space (stdout p)
               in if branch = [] \<or> branch = ''HEAD'' then (None, s1) else (Some branch, s1)))"

definition check_remote :: "'w sys \<Rightarrow> path \<Rightarrow> string \<Rightarrow> 'w st \<Rightarrow> bool \<times> 'w st" where
  "check_remote sys root remote s =
     (let (p, s1) = run sys [''git'', ''-C'', str_path root, ''remote'', ''get-url'', remote] s
      in (returncode p = 0, s1))"

text \<open>
  \<^verbatim>\<open>
  def _only_output_files(paths, output_dir):
      clean = output_dir.strip("/").replace("\\", "/")
      bad = []
      for path in paths:
          norm = path.replace("\\", "/")
          if norm == clean or norm.startswith(f"{clean}/"):
              continue
          bad.append(path)
      return (len(bad) == 0), bad
  \<close>
\<close>

definition backslash_to_slash :: "string \<Rightarrow> string" where
  "backslash_to_slash s = map (\<lambda>c. if c = CHR 0x5C then CHR ''/'' else c) s"

definition clean_output_dir :: "string \<Rightarrow> string" where
  "clean_output_dir output_dir = backslash_to_slash (strip_chars (\<lambda>c. c = CHR ''/'') output_dir)"

fun only_output_loop :: "string \<Rightarrow> string list \<Rightarrow> string list \<Rightarrow> string list" where
  "only_output_loop clean [] bad = bad"
| "only_output_loop clean (path # paths) bad =
     (let norm = backslash_to_slash path
      in if norm = clean \<or> prefix (clean @ ''/'') norm then only_output_loop clean paths bad
         else only_output_loop clean paths (bad @ [path]))"

definition only_output_files :: "string list \<Rightarrow> string \<Rightarrow> bool \<times> string list" where
  "only_output_files paths output_dir =
     (let bad = only_output_loop (clean_output_dir output_dir) paths []
      in (length bad = 0, bad))"

text \<open>
  The test of the loop on one staged path, and what it means for paths: the staged path,
  with backslashes read as slashes, is the output directory or lies below it.
\<close>

definition under_output :: "string \<Rightarrow> string \<Rightarrow> bool" where
  "under_output output_dir path =
     (backslash_to_slash path = clean_output_dir output_dir \<or>
      prefix (clean_output_dir output_dir @ ''/'') (backslash_to_slash path))"

text \<open>The arguments of the script, with the defaults of its parser.\<close>

record checkpoint_args =
  processed_count :: int
  commit_every :: int
  push_every :: int
  ck_output_dir :: string
  remote :: string
  ck_branch :: "string option"
  message_template :: string

text \<open>
  The commit step of \<^verbatim>\<open>main\<close> (lines 107 to 131): it returns the exit of the script, or
  the summary to go on with.
  \<^verbatim>\<open>
  if commit_due:
      add_proc = _run(["git", "-C", str(repo_root), "add", "--", args.output_dir])
      if add_proc.returncode != 0:
          return _fail(add_proc.stderr.strip() or add_proc.stdout.strip())
      staged = _staged_files(repo_root)
      if not staged:
          summary["commit_skipped"] = "no staged output changes"
      else:
          ok, bad = _only_output_files(staged, args.output_dir)
          if not ok:
              return _fail("Staged changes include non-output files: "
                  + ", ".join(sorted(bad)) + ". Unstage them before checkpoint commit.")
          message = args.message_template.format(count=args.processed_count)
          commit_proc = _run(["git", "-C", str(repo_root), "commit", "-m", message])
          if commit_proc.returncode != 0:
              return _fail(commit_proc.stderr.strip() or commit_proc.stdout.strip())
          summary["commit_done"] = True
          summary["commit_message"] = message
  \<close>
\<close>

definition add_cmd :: "path \<Rightarrow> checkpoint_args \<Rightarrow> string list" where
  "add_cmd root args = [''git'', ''-C'', str_path root, ''add'', ''--'', ck_output_dir args]"

definition diff_cmd :: "path \<Rightarrow> string list" where
  "diff_cmd root = [''git'', ''-C'', str_path root, ''diff'', ''--cached'', ''--name-only'']"

definition commit_cmd :: "path \<Rightarrow> string \<Rightarrow> string list" where
  "commit_cmd root message = [''git'', ''-C'', str_path root, ''commit'', ''-m'', message]"

definition non_output_message :: "string list \<Rightarrow> string" where
  "non_output_message bad =
     ''Staged changes include non-output files: '' @ join_with '', '' (sort bad)
       @ ''. Unstage them before checkpoint commit.''"

definition commit_step ::
  "'w sys \<Rightarrow> checkpoint_args \<Rightarrow> path \<Rightarrow> (string \<times> json) list \<Rightarrow> 'w st
     \<Rightarrow> (outcome + (string \<times> json) list) \<times> 'w st" where
  "commit_step sys args root summary s =
     (let (add_proc, s1) = run sys (add_cmd root args) s in
      if returncode add_proc \<noteq> 0 then
        (let (r, s2) = fail (proc_message add_proc) 1 s1 in (Inl r, s2))
      else
        (let (staged, s2) = staged_files sys root s1 in
         if staged = [] then
           (Inr (dict_set summary ''commit_skipped'' (JStr ''no staged output changes'')), s2)
         else
           (let (ok, bad) = only_output_files staged (ck_output_dir args) in
            if \<not> ok then
              (let (r, s3) = fail (non_output_message bad) 1 s2 in (Inl r, s3))
            else
              (case sys_format sys (message_template args) (processed_count args) of
                 Inl e \<Rightarrow> (Inl (Uncaught e), s2)
               | Inr message \<Rightarrow>
                   (let (commit_proc, s3) = run sys (commit_cmd root message) s2 in
                    if returncode commit_proc \<noteq> 0 then
                      (let (r, s4) = fail (proc_message commit_proc) 1 s3 in (Inl r, s4))
                    else
                      (Inr (dict_set (dict_set summary ''commit_done'' (JBool True))
                              ''commit_message'' (JStr message)), s3))))))"

text \<open>
  The push step (lines 133 to 145).
  \<^verbatim>\<open>
  if push_due:
      branch = args.branch or _current_branch(repo_root)
      if not branch:
          return _fail("Cannot determine branch for push. Pass --branch explicitly.")
      if not _check_remote(repo_root, args.remote):
          return _fail(f"Remote not found: {args.remote}")
      push_proc = _run(["git", "-C", str(repo_root), "push", args.remote, branch])
      if push_proc.returncode != 0:
          return _fail(push_proc.stderr.strip() or push_proc.stdout.strip())
      summary["push_done"] = True
      summary["remote"] = args.remote
      summary["branch"] = branch
  \<close>
\<close>

definition push_step ::
  "'w sys \<Rightarrow> checkpoint_args \<Rightarrow> path \<Rightarrow> (string \<times> json) list \<Rightarrow> 'w st
     \<Rightarrow> (outcome + (string \<times> json) list) \<times> 'w st" where
  "push_step sys args root summary s =
     (let (branch, s1) =
            (case ck_branch args of
               Some b \<Rightarrow> (if b \<noteq> [] then (Some b, s) else current_branch sys root s)
             | None \<Rightarrow> current_branch sys root s) in
      case branch of
        None \<Rightarrow>
          (let (r, s2) = fail ''Cannot determine branch for push. Pass --branch explicitly.'' 1 s1
           in (Inl r, s2))
      | Some b \<Rightarrow>
          (if b = [] then
             (let (r, s2) = fail ''Cannot determine branch for push. Pass --branch explicitly.'' 1 s1
              in (Inl r, s2))
           else
             (let (found, s2) = check_remote sys root (remote args) s1 in
              if \<not> found then
                (let (r, s3) = fail (''Remote not found: '' @ remote args) 1 s2 in (Inl r, s3))
              else
                (let (push_proc, s3) =
                       run sys [''git'', ''-C'', str_path root, ''push'', remote args, b] s2 in
                 if returncode push_proc \<noteq> 0 then
                   (let (r, s4) = fail (proc_message push_proc) 1 s3 in (Inl r, s4))
                 else
                   (Inr (dict_set (dict_set (dict_set summary ''push_done'' (JBool True))
                           ''remote'' (JStr (remote args))) ''branch'' (JStr b)), s3)))))"

text \<open>
  \<^verbatim>\<open>main\<close> of the script: the argument checks, the repository root, the two cadences,
  the commit step, the push step and the summary.
\<close>

definition checkpoint_main :: "'w sys \<Rightarrow> checkpoint_args \<Rightarrow> 'w st \<Rightarrow> outcome \<times> 'w st" where
  "checkpoint_main sys args s0 =
     (if processed_count args \<le> 0 then fail ''--processed-count must be > 0.'' 1 s0
      else if commit_every args \<le> 0 \<or> push_every args \<le> 0 then
        fail ''--commit-every and --push-every must be > 0.'' 1 s0
      else
        (case repo_root sys (sys_cwd sys (world s0)) s0 of
           (Inl e, s1) \<Rightarrow> (Uncaught e, s1)
         | (Inr None, s1) \<Rightarrow>
             fail ''Current directory is not a git repository. Initialize git first and retry.'' 2 s1
         | (Inr (Some root), s1) \<Rightarrow>
             (let commit_due = (processed_count args mod commit_every args = 0);
                  push_due = (processed_count args mod push_every args = 0);
                  summary = [(''repo_root'', JStr (str_path root)),
                             (''processed_count'', JInt (processed_count args)),
                             (''commit_due'', JBool commit_due),
                             (''push_due'', JBool push_due),
                             (''commit_done'', JBool False),
                             (''push_done'', JBool False)]
              in case (if commit_due then commit_step sys args root summary s1
                       else (Inr summary, s1)) of
                   (Inl r, s2) \<Rightarrow> (r, s2)
                 | (Inr summary2, s2) \<Rightarrow>
                     (case (if push_due then push_step sys args root summary2 s2
                            else (Inr summary2, s2)) of
                        (Inl r, s3) \<Rightarrow> (r, s3)
                      | (Inr summary3, s3) \<Rightarrow>
                          (Return 0, s3\<lparr>printed := printed s3 @ [JsonLine summary3]\<rparr>)))))"

text \<open>The git subcommand of a spawned command \<^verbatim>\<open>git -C <root> <subcommand> ...\<close>.\<close>

definition git_subcommand :: "string list \<Rightarrow> string" where
  "git_subcommand cmd = (if 3 < length cmd then cmd ! 3 else [])"

section \<open>Worktree lifecycle (\<^verbatim>\<open>git_worktree_isolation.py\<close>)\<close>

text \<open>
  \<^verbatim>\<open>
  def _copy_tree(src, dst):
      if not src.exists():
          raise FileNotFoundError(f"Source path does not exist: {src}")
      if dst.exists():
          if dst.is_dir():
              shutil.rmtree(dst)
          else:
              dst.unlink()
      dst.parent.mkdir(parents=True, exist_ok=True)
      if src.is_dir():
          shutil.copytree(src, dst)
      else:
          shutil.copy2(src, dst)
  \<close>
\<close>

definition copy_tree :: "'w sys \<Rightarrow> path \<Rightarrow> path \<Rightarrow> 'w \<Rightarrow> exn option \<times> 'w" where
  "copy_tree sys src dst w =
     (if \<not> sys_exists sys w src then
        (Some (FileNotFoundError (''Source path does not exist: '' @ str_path src)), w)
      else
        (case (if sys_exists sys w dst then
                 (if sys_is_dir sys w dst then sys_rmtree sys dst w else sys_unlink sys dst w)
               else (None, w)) of
           (Some e, w1) \<Rightarrow> (Some e, w1)
         | (None, w1) \<Rightarrow>
             (case sys_mkdir sys (parent dst) w1 of
                (Some e, w2) \<Rightarrow> (Some e, w2)
              | (None, w2) \<Rightarrow>
                  (if sys_is_dir sys w2 src then sys_copytree sys src dst w2
                   else sys_copy2 sys src dst w2))))"



text \<open>
  The body of the \<^verbatim>\<open>try\<close> block of \<^verbatim>\<open>_create\<close> (lines 149 to 153): the exception it
  raises, if any, and the world it leaves.
  \<^verbatim>\<open>
  _copy_tree(paper_abs, wt_path / paper_rel)
  _copy_tree(skill_abs, wt_path / skill_rel)
  output_dir_abs = _resolve_under_root(wt_path, args.output_dir, "Output dir")
  output_dir_abs.mkdir(parents=True, exist_ok=True)
  \<close>
\<close>

definition stage_payload ::
  "'w sys \<Rightarrow> path \<Rightarrow> string \<Rightarrow> path \<Rightarrow> string \<Rightarrow> path \<Rightarrow> string \<Rightarrow> 'w \<Rightarrow> exn option \<times> 'w" where
  "stage_payload sys paper_abs paper_rel skill_abs skill_rel wt_path output_dir w =
     (case copy_tree sys paper_abs (joinpath wt_path (Path_of paper_rel)) w of
        (Some e, w1) \<Rightarrow> (Some e, w1)
      | (None, w1) \<Rightarrow>
          (case copy_tree sys skill_abs (joinpath wt_path (Path_of skill_rel)) w1 of
             (Some e, w2) \<Rightarrow> (Some e, w2)
           | (None, w2) \<Rightarrow>
               (case resolve_under_root (sys_resolve sys w2) wt_path output_dir ''Output dir'' of
                  Inl e \<Rightarrow> (Some e, w2)
                | Inr output_dir_abs \<Rightarrow> sys_mkdir sys output_dir_abs w2)))"













section \<open>The sandbox launcher (\<^verbatim>\<open>worker_sandbox.py\<close>)\<close>

definition SYSTEM_RO_PATHS :: "string list" where
  "SYSTEM_RO_PATHS = [''/usr'', ''/bin'', ''/sbin'', ''/lib'', ''/lib64'', ''/etc'', ''/opt'']"

text \<open>
  \<^verbatim>\<open>
  def _resolve_base_path(cwd, raw_path, label):
      base = Path(raw_path)
      abs_path = (cwd / base).resolve() if not base.is_absolute() else base.resolve()
      if not abs_path.exists():
          raise ValueError(f"{label} path does not exist: {abs_path}")
      return abs_path
  \<close>
\<close>

definition resolve_base_path :: "'w sys \<Rightarrow> 'w \<Rightarrow> path \<Rightarrow> string \<Rightarrow> string \<Rightarrow> exn + path" where
  "resolve_base_path sys w cwd raw_path label =
     (let base = Path_of raw_path in
      case sys_resolve sys w (if \<not> is_absolute base then joinpath cwd base else base) of
        Inl e \<Rightarrow> Inl e
      | Inr abs_path \<Rightarrow>
          (if \<not> sys_exists sys w abs_path then
             Inl (ValueError (label @ '' path does not exist: '' @ str_path abs_path))
           else Inr abs_path))"

text \<open>
  \<^verbatim>\<open>
  def _resolve_under(base_dir, raw_rel, label):
      raw = Path(raw_rel)
      if raw.is_absolute():
          raise ValueError(f"{label} must be a relative path under worktree: {raw_rel}")
      abs_path = (base_dir / raw).resolve()
      try:
          rel = abs_path.relative_to(base_dir).as_posix()
      except ValueError as exc:
          raise ValueError(f"{label} escapes worktree: {raw_rel}") from exc
      return abs_path, rel
  \<close>
\<close>

definition resolve_under ::
  "(path \<Rightarrow> exn + path) \<Rightarrow> path \<Rightarrow> string \<Rightarrow> string \<Rightarrow> exn + (path \<times> string)" where
  "resolve_under resolve base_dir raw_rel label =
     (let raw = Path_of raw_rel in
      if is_absolute raw then
        Inl (ValueError (label @ '' must be a relative path under worktree: '' @ raw_rel))
      else
        (case resolve (joinpath base_dir raw) of
           Inl e \<Rightarrow> Inl e
         | Inr abs_path \<Rightarrow>
             (case relative_to abs_path base_dir of
                Inl exc \<Rightarrow> Inl (ValueError (label @ '' escapes worktree: '' @ raw_rel))
              | Inr rel \<Rightarrow> Inr (abs_path, str_path rel))))"

text \<open>
  \<^verbatim>\<open>
  def _workspace_dirs_for(rel_path):
      rel = PurePosixPath(rel_path)
      if rel == PurePosixPath("."):
          return ["/workspace"]
      dirs = ["/workspace"]
      current = PurePosixPath("/workspace")
      for part in rel.parts:
          current = current / part
          dirs.append(str(current))
      return dirs
  \<close>
  \<open>py_parts\<close> is \<^verbatim>\<open>PurePosixPath.parts\<close>, which starts with the root of an absolute
  path.
\<close>

definition py_parts :: "path \<Rightarrow> string list" where
  "py_parts p =
     (case anchor p of
        Relative \<Rightarrow> parts p
      | Root \<Rightarrow> ''/'' # parts p
      | DoubleRoot \<Rightarrow> ''//'' # parts p)"

fun workspace_dirs_loop :: "path \<Rightarrow> string list \<Rightarrow> string list" where
  "workspace_dirs_loop current [] = []"
| "workspace_dirs_loop current (part # rest) =
     str_path (joinpath current (Path_of part))
       # workspace_dirs_loop (joinpath current (Path_of part)) rest"

definition workspace_dirs_for :: "string \<Rightarrow> string list" where
  "workspace_dirs_for rel_path =
     (let rel = Path_of rel_path in
      if rel = Path_of ''.'' then [''/workspace'']
      else ''/workspace'' # workspace_dirs_loop (Path_of ''/workspace'') (py_parts rel))"

text \<open>
  \<^verbatim>\<open>
  def _unique_sorted_dirs(paths: set[str]):
      return sorted(paths, key=lambda p: (p.count("/"), p))
  \<close>
  The set is given by a list of its elements; strings are compared by code point.
\<close>

definition unique_sorted_dirs :: "string list \<Rightarrow> string list" where
  "unique_sorted_dirs paths = sort_key (\<lambda>p. (count_list p CHR ''/'', p)) (remdups paths)"

text \<open>The arguments of the script; \<^verbatim>\<open>--cwd-mode\<close> has two choices.\<close>

datatype cwd_mode = CwdWorkspace | CwdPaper

record sandbox_args =
  sb_worktree_path :: string
  sb_paper_dir_relpath :: string
  sb_skill_dir_relpath :: string
  sb_output_dir :: string
  sb_cwd_mode :: cwd_mode
  sb_worker_cmd :: "string list"

text \<open>
  The command of lines 151 to 196: \<^verbatim>\<open>bwrap\<close> with its fixed options, a read-only bind
  for each system path that exists, the directories under \<^verbatim>\<open>/workspace\<close>, the two
  read-write binds (paper and output), the three read-only binds of the policy bundle
  and the working directory (\<open>sandbox_options\<close>); the worker command is appended last
  (\<^verbatim>\<open>cmd.extend(worker_cmd)\<close>).
\<close>

definition sandbox_options ::
  "'w sys \<Rightarrow> 'w \<Rightarrow> string \<Rightarrow> path \<Rightarrow> string \<Rightarrow> path \<Rightarrow> string \<Rightarrow> path \<Rightarrow> string
     \<Rightarrow> cwd_mode \<Rightarrow> string list" where
  "sandbox_options sys w bwrap_bin paper_abs paper_rel output_abs output_rel skill_abs skill_rel
       mode =
     (let paper_dst = ''/workspace/'' @ paper_rel;
          output_dst = ''/workspace/'' @ output_rel;
          skill_base_dst = ''/workspace/'' @ skill_rel;
          skill_file_dst = skill_base_dst @ ''/SKILL.md'';
          references_dst = skill_base_dst @ ''/references'';
          scripts_dst = skill_base_dst @ ''/scripts'';
          mkdir_targets = workspace_dirs_for paper_rel @ workspace_dirs_for output_rel
                            @ workspace_dirs_for skill_rel;
          sandbox_cwd = (if mode = CwdWorkspace then ''/workspace'' else paper_dst)
      in [bwrap_bin, ''--die-with-parent'', ''--new-session'', ''--proc'', ''/proc'',
          ''--dev'', ''/dev'', ''--tmpfs'', ''/tmp'', ''--setenv'', ''CFST_SANDBOX'', ''1'',
          ''--setenv'', ''HOME'', ''/tmp'']
         @ concat (map (\<lambda>host_path. [''--ro-bind'', host_path, host_path])
                     (filter (\<lambda>host_path. sys_exists sys w (Path_of host_path)) SYSTEM_RO_PATHS))
         @ concat (map (\<lambda>dst. [''--dir'', dst]) (unique_sorted_dirs mkdir_targets))
         @ [''--bind'', str_path paper_abs, paper_dst]
         @ [''--bind'', str_path output_abs, output_dst]
         @ [''--ro-bind'', str_path (joinpath skill_abs (Path_of ''SKILL.md'')), skill_file_dst]
         @ [''--ro-bind'', str_path (joinpath skill_abs (Path_of ''references'')), references_dst]
         @ [''--ro-bind'', str_path (joinpath skill_abs (Path_of ''scripts'')), scripts_dst]
         @ [''--chdir'', sandbox_cwd])"

definition sandbox_cmd ::
  "'w sys \<Rightarrow> 'w \<Rightarrow> string \<Rightarrow> path \<Rightarrow> string \<Rightarrow> path \<Rightarrow> string \<Rightarrow> path \<Rightarrow> string
     \<Rightarrow> cwd_mode \<Rightarrow> string list \<Rightarrow> string list" where
  "sandbox_cmd sys w bwrap_bin paper_abs paper_rel output_abs output_rel skill_abs skill_rel
       mode worker_cmd =
     sandbox_options sys w bwrap_bin paper_abs paper_rel output_abs output_rel skill_abs skill_rel
       mode @ worker_cmd"

text \<open>
  \<^verbatim>\<open>
  worker_cmd = list(args.worker_cmd)
  if worker_cmd and worker_cmd[0] == "--":
      worker_cmd = worker_cmd[1:]
  \<close>
\<close>

definition strip_dashdash :: "string list \<Rightarrow> string list" where
  "strip_dashdash worker_cmd =
     (if worker_cmd \<noteq> [] \<and> hd worker_cmd = ''--'' then tl worker_cmd else worker_cmd)"

text \<open>
  \<^verbatim>\<open>main\<close> from line 128 on, once the worktree and the three directories are resolved:
  the five checks, the creation of the output directory, the worker command, and the
  one \<^verbatim>\<open>subprocess.run\<close> whose return code is returned.
  \<^verbatim>\<open>
  if not paper_abs.is_dir():
      return _fail(f"Paper directory not found: {paper_abs}")
  if not skill_abs.is_dir():
      return _fail(f"Skill directory not found: {skill_abs}")
  skill_file = skill_abs / "SKILL.md"
  references_dir = skill_abs / "references"
  scripts_dir = skill_abs / "scripts"
  if not skill_file.is_file():
      return _fail(f"Missing skill file: {skill_file}")
  if not references_dir.is_dir():
      return _fail(f"Missing references directory: {references_dir}")
  if not scripts_dir.is_dir():
      return _fail(f"Missing scripts directory: {scripts_dir}")
  output_abs.mkdir(parents=True, exist_ok=True)
  worker_cmd = ...
  if not worker_cmd:
      return _fail("Missing worker command. Use -- <command> <args...>")
  ...
  proc = subprocess.run(cmd, check=False)
  return proc.returncode
  \<close>
\<close>

definition sandbox_launch ::
  "'w sys \<Rightarrow> sandbox_args \<Rightarrow> string \<Rightarrow> path \<Rightarrow> string \<Rightarrow> path \<Rightarrow> string \<Rightarrow> path \<Rightarrow> string
     \<Rightarrow> 'w st \<Rightarrow> outcome \<times> 'w st" where
  "sandbox_launch sys args bwrap_bin paper_abs paper_rel skill_abs skill_rel output_abs output_rel s =
     (let skill_file = joinpath skill_abs (Path_of ''SKILL.md'');
          references_dir = joinpath skill_abs (Path_of ''references'');
          scripts_dir = joinpath skill_abs (Path_of ''scripts'')
      in
      if \<not> sys_is_dir sys (world s) paper_abs then
        fail (''Paper directory not found: '' @ str_path paper_abs) 1 s
      else if \<not> sys_is_dir sys (world s) skill_abs then
        fail (''Skill directory not found: '' @ str_path skill_abs) 1 s
      else if \<not> sys_is_file sys (world s) skill_file then
        fail (''Missing skill file: '' @ str_path skill_file) 1 s
      else if \<not> sys_is_dir sys (world s) references_dir then
        fail (''Missing references directory: '' @ str_path references_dir) 1 s
      else if \<not> sys_is_dir sys (world s) scripts_dir then
        fail (''Missing scripts directory: '' @ str_path scripts_dir) 1 s
      else
        (case sys_mkdir sys output_abs (world s) of
           (Some e, w1) \<Rightarrow> (Uncaught e, s\<lparr>world := w1\<rparr>)
         | (None, w1) \<Rightarrow>
             (let worker_cmd = strip_dashdash (sb_worker_cmd args) in
              if worker_cmd = [] then
                fail ''Missing worker command. Use -- <command> <args...>'' 1 (s\<lparr>world := w1\<rparr>)
              else
                (let cmd = sandbox_cmd sys w1 bwrap_bin paper_abs paper_rel output_abs output_rel
                             skill_abs skill_rel (sb_cwd_mode args) worker_cmd;
                     (proc, s2) = run sys cmd (s\<lparr>world := w1\<rparr>)
                 in (Return (returncode proc), s2)))))"

text \<open>
  \<^verbatim>\<open>main\<close> (lines 105 to 126), then \<open>sandbox_launch\<close>: \<^verbatim>\<open>bwrap\<close> must be on the path,
  the worktree must exist and be a directory, and the three directories must resolve
  under it.  Only a \<^verbatim>\<open>ValueError\<close> is caught.
\<close>

definition sandbox_main :: "'w sys \<Rightarrow> sandbox_args \<Rightarrow> 'w st \<Rightarrow> outcome \<times> 'w st" where
  "sandbox_main sys args s =
     (case sys_which sys (world s) ''bwrap'' of
        None \<Rightarrow> fail ''bubblewrap (bwrap) not found in PATH.'' 1 s
      | Some bwrap_bin \<Rightarrow>
     (if bwrap_bin = [] then fail ''bubblewrap (bwrap) not found in PATH.'' 1 s
      else
     (case resolve_base_path sys (world s) (sys_cwd sys (world s)) (sb_worktree_path args)
             ''Worktree'' of
        Inl e \<Rightarrow> (if is_ValueError e then fail (str_exn e) 1 s else (Uncaught e, s))
      | Inr worktree_path \<Rightarrow>
     (if \<not> sys_is_dir sys (world s) worktree_path then
        fail (''Worktree path is not a directory: '' @ str_path worktree_path) 1 s
      else
     (case resolve_under (sys_resolve sys (world s)) worktree_path (sb_paper_dir_relpath args)
             ''Paper dir'' of
        Inl e \<Rightarrow> (if is_ValueError e then fail (str_exn e) 1 s else (Uncaught e, s))
      | Inr (paper_abs, paper_rel) \<Rightarrow>
     (case resolve_under (sys_resolve sys (world s)) worktree_path (sb_skill_dir_relpath args)
             ''Skill dir'' of
        Inl e \<Rightarrow> (if is_ValueError e then fail (str_exn e) 1 s else (Uncaught e, s))
      | Inr (skill_abs, skill_rel) \<Rightarrow>
     (case resolve_under (sys_resolve sys (world s)) worktree_path (sb_output_dir args)
             ''Output dir'' of
        Inl e \<Rightarrow> (if is_ValueError e then fail (str_exn e) 1 s else (Uncaught e, s))
      | Inr (output_abs, output_rel) \<Rightarrow>
          sandbox_launch sys args bwrap_bin paper_abs paper_rel skill_abs skill_rel
            output_abs output_rel s)))))))"

section \<open>A small operating system to run the scripts in\<close>

text \<open>
  One concrete world, for evaluating the scripts on examples: the directories and files
  that exist, the branches, the staged paths, the messages of the commits made, the
  exception the next tree copy raises (if any), the exit code of the sandboxed worker,
  the process id and the clock.  The repository is \<^verbatim>\<open>/repo\<close>, there are no symbolic
  links, and git does what its commands say.
\<close>

record toy =
  t_dirs :: "path list"
  t_files :: "path list"
  t_branches :: "string list"
  t_staged :: "string list"
  t_commits :: "string list"
  t_copy_error :: "exn option"
  t_worker_exit :: int
  t_pid :: nat
  t_clock :: string

definition arg :: "nat \<Rightarrow> string list \<Rightarrow> string" where
  "arg i cmd = (if i < length cmd then cmd ! i else [])"

definition toy_proc :: "int \<Rightarrow> string \<Rightarrow> proc" where
  "toy_proc rc out = \<lparr>returncode = rc, stdout = out, stderr = (if rc = 0 then [] else ''fatal'')\<rparr>"

definition not_under :: "path \<Rightarrow> path \<Rightarrow> bool" where
  "not_under p q = (\<not> is_relative_to q p)"

definition toy_run :: "string list \<Rightarrow> toy \<Rightarrow> proc \<times> toy" where
  "toy_run cmd w =
     (if arg 0 cmd \<noteq> ''git'' then (toy_proc (t_worker_exit w) [], w)
      else if arg 3 cmd = ''rev-parse'' \<and> arg 4 cmd = ''--show-toplevel'' then
        (toy_proc 0 (''/repo'' @ [CHR 0x0A]), w)
      else if arg 3 cmd = ''rev-parse'' then (toy_proc 0 ''main'', w)
      else if arg 3 cmd = ''diff'' then (toy_proc 0 (join_with [CHR 0x0A] (t_staged w)), w)
      else if arg 3 cmd = ''commit'' then
        (toy_proc 0 [], w\<lparr>t_staged := [], t_commits := t_commits w @ [arg 5 cmd]\<rparr>)
      else if arg 3 cmd = ''worktree'' \<and> arg 4 cmd = ''add'' then
        (if arg 6 cmd \<in> set (t_branches w) then (toy_proc 128 [], w)
         else (toy_proc 0 [],
               w\<lparr>t_dirs := Path_of (arg 7 cmd) # t_dirs w,
                  t_branches := arg 6 cmd # t_branches w\<rparr>))
      else if arg 3 cmd = ''worktree'' \<and> arg 4 cmd = ''remove'' then
        (if Path_of (arg 6 cmd) \<in> set (t_dirs w) then
           (toy_proc 0 [],
            w\<lparr>t_dirs := filter (not_under (Path_of (arg 6 cmd))) (t_dirs w),
               t_files := filter (not_under (Path_of (arg 6 cmd))) (t_files w)\<rparr>)
         else (toy_proc 128 [], w))
      else if arg 3 cmd = ''branch'' then
        (if arg 5 cmd \<in> set (t_branches w) then
           (toy_proc 0 [], w\<lparr>t_branches := removeAll (arg 5 cmd) (t_branches w)\<rparr>)
         else (toy_proc 1 [], w))
      else (toy_proc 0 [], w))"

definition toy_copytree :: "path \<Rightarrow> path \<Rightarrow> toy \<Rightarrow> exn option \<times> toy" where
  "toy_copytree src dst w =
     (case t_copy_error w of
        Some e \<Rightarrow> (Some e, w\<lparr>t_dirs := dst # t_dirs w\<rparr>)
      | None \<Rightarrow>
          (let move = (\<lambda>p. Path (anchor dst) (parts dst @ drop (length (parts src)) (parts p)))
           in (None,
               w\<lparr>t_dirs := map move (filter (\<lambda>p. is_relative_to p src) (t_dirs w)) @ t_dirs w,
                  t_files := map move (filter (\<lambda>p. is_relative_to p src) (t_files w))
                               @ t_files w\<rparr>)))"

definition toy_sys :: "toy sys" where
  "toy_sys =
     \<lparr> sys_run = toy_run,
       sys_resolve = (\<lambda>w. lexical_resolve (Path Root [''repo''])),
       sys_exists = (\<lambda>w p. p \<in> set (t_dirs w) \<or> p \<in> set (t_files w)),
       sys_is_dir = (\<lambda>w p. p \<in> set (t_dirs w)),
       sys_is_file = (\<lambda>w p. p \<in> set (t_files w)),
       sys_cwd = (\<lambda>w. Path Root [''repo'']),
       sys_getpid = t_pid,
       sys_strftime = t_clock,
       sys_which = (\<lambda>w name. Some (''/usr/bin/'' @ name)),
       sys_mkdir = (\<lambda>p w. (None, w\<lparr>t_dirs := p # t_dirs w\<rparr>)),
       sys_rmtree = (\<lambda>p w. (None, w\<lparr>t_dirs := filter (not_under p) (t_dirs w),
                                      t_files := filter (not_under p) (t_files w)\<rparr>)),
       sys_unlink = (\<lambda>p w. (None, w\<lparr>t_files := removeAll p (t_files w)\<rparr>)),
       sys_copytree = toy_copytree,
       sys_copy2 = (\<lambda>src dst w. (None, w\<lparr>t_files := dst # t_files w\<rparr>)),
       sys_format = (\<lambda>template n. Inr (''cfst-output: processed '' @ str_nat (nat n) @ '' papers'')) \<rparr>"

text \<open>
  The repository of the examples: the paper \<^verbatim>\<open>papers/P1\<close>, the policy bundle with its
  file and two directories, and an output directory with one staged result.
\<close>

definition toy_world :: toy where
  "toy_world =
     \<lparr> t_dirs = [Path Root [''repo''], Path Root [''repo'', ''papers''],
                 Path Root [''repo'', ''papers'', ''P1''],
                 Path Root [''repo'', ''.codex'', ''skills'', ''cfst-paper-extractor''],
                 Path Root [''repo'', ''.codex'', ''skills'', ''cfst-paper-extractor'', ''references''],
                 Path Root [''repo'', ''.codex'', ''skills'', ''cfst-paper-extractor'', ''scripts'']],
       t_files = [Path Root [''repo'', ''.codex'', ''skills'', ''cfst-paper-extractor'', ''SKILL.md'']],
       t_branches = [''main''],
       t_staged = [''output/P1.json''],
       t_commits = [],
       t_copy_error = None,
       t_worker_exit = 0,
       t_pid = 4242,
       t_clock = ''20240101-120000'' \<rparr>"

definition start :: "toy \<Rightarrow> toy st" where
  "start w = \<lparr>world = w, trace = [], printed = []\<rparr>"

text \<open>The tenth paper is done: a commit is due, a push is not.\<close>

definition ck_args :: checkpoint_args where
  "ck_args =
     \<lparr> processed_count = 10, commit_every = 10, push_every = 20, ck_output_dir = ''output'',
       remote = ''origin'', ck_branch = None,
       message_template = ''cfst-output: processed {count} papers'' \<rparr>"

definition stray_world :: toy where
  "stray_world = toy_world\<lparr>t_staged := [''output/P1.json'', ''src/evil.py'']\<rparr>"



text \<open>
  A staged file in a directory whose name is \<^verbatim>\<open>output\<close> after a space: it is not under
  the output directory, and \<^verbatim>\<open>git diff --cached --name-only\<close> prints its name as it is.
\<close>

definition space_world :: toy where
  "space_world = toy_world\<lparr>t_staged := ['' output/evil.py'']\<rparr>"

text \<open>
  \<^verbatim>\<open>Path.resolve()\<close> on a file system where \<^verbatim>\<open>papers\<close> in the checked-out worktree is a
  symbolic link to \<^verbatim>\<open>/data/papers\<close> (the base reference tracks it as one), and nothing
  else is a link.
\<close>

definition scenario_worktree :: path where
  "scenario_worktree =
     Path Root [''repo'', ''.codex'', ''worktrees'', ''P1-20240101-120000-repo-4242'']"

definition linked_resolve :: "path \<Rightarrow> exn + path" where
  "linked_resolve p =
     (case lexical_resolve (Path Root [''repo'']) p of
        Inl e \<Rightarrow> Inl e
      | Inr q \<Rightarrow>
          (case relative_to q (joinpath scenario_worktree (Path_of ''papers'')) of
             Inl e \<Rightarrow> Inr q
           | Inr rest \<Rightarrow> Inr (joinpath (Path Root [''data'', ''papers'']) rest)))"



text \<open>
  The worktree of the scenario with its payload and policy bundle staged, and the launcher's
  arguments for the worker command \<^verbatim>\<open>false\<close>, which always exits 1.  In
  \<open>no_references_world\<close> the \<^verbatim>\<open>references\<close> directory of the bundle is missing.
\<close>

definition sandbox_world :: toy where
  "sandbox_world =
     toy_world\<lparr>t_dirs := [Path Root [''usr''], Path Root [''bin''], Path Root [''repo''],
                           scenario_worktree,
                           joinpath scenario_worktree (Path_of ''papers/P1''),
                           joinpath scenario_worktree (Path_of ''.codex/skills/cfst-paper-extractor''),
                           joinpath scenario_worktree
                             (Path_of ''.codex/skills/cfst-paper-extractor/references''),
                           joinpath scenario_worktree
                             (Path_of ''.codex/skills/cfst-paper-extractor/scripts'')],
               t_files := [joinpath scenario_worktree
                             (Path_of ''.codex/skills/cfst-paper-extractor/SKILL.md'')],
               t_worker_exit := 1\<rparr>"

definition no_references_world :: toy where
  "no_references_world =
     sandbox_world\<lparr>t_dirs := removeAll
        (joinpath scenario_worktree (Path_of ''.codex/skills/cfst-paper-extractor/references''))
        (t_dirs sandbox_world)\<rparr>"

definition sb_args :: sandbox_args where
  "sb_args =
     \<lparr> sb_worktree_path = ''.codex/worktrees/P1-20240101-120000-repo-4242'',
       sb_paper_dir_relpath = ''papers/P1'',
       sb_skill_dir_relpath = ''.codex/skills/cfst-paper-extractor'',
       sb_output_dir = ''tmp/P1'',
       sb_cwd_mode = CwdWorkspace,
       sb_worker_cmd = [''--'', ''false''] \<rparr>"


section \<open>Properties of the slug sanitizer\<close>

lemma safe_dash: "safe_char CHR ''-''"
  by (simp add: safe_char_def)

lemma set_sub_unsafe: "set (sub_unsafe s) \<subseteq> Collect safe_char"
  by (induction s rule: sub_unsafe.induct) (auto simp: safe_dash)

lemma set_strip_chars: "set (strip_chars P s) \<subseteq> set s"
  unfolding strip_chars_def by (auto dest!: set_dropWhileD)

lemma dropWhile_hd: "dropWhile P s \<noteq> [] \<Longrightarrow> \<not> P (hd (dropWhile P s))"
  by (simp add: hd_dropWhile)

lemma strip_chars_last:
  "strip_chars P s \<noteq> [] \<Longrightarrow> \<not> P (last (strip_chars P s))"
  unfolding strip_chars_def by (simp add: last_rev hd_dropWhile)

lemma dropWhile_rev_hd:
  assumes a: "dropWhile P s \<noteq> []"
  shows "rev (dropWhile P (rev (dropWhile P s))) \<noteq> [] \<and>
     hd (rev (dropWhile P (rev (dropWhile P s)))) = hd (dropWhile P s)"
proof -
  obtain x xs where e: "dropWhile P s = x # xs" using a by (cases "dropWhile P s") auto
  have nx: "\<not> P x" using hd_dropWhile[OF a] e by simp
  have "rev (dropWhile P (rev xs @ [x])) = x # rev (dropWhile P (rev xs)) \<or>
        rev (dropWhile P (rev xs @ [x])) = [x]"
    using nx by (auto simp: dropWhile_append)
  then show ?thesis using e nx by auto
qed

lemma strip_chars_hd:
  "strip_chars P s \<noteq> [] \<Longrightarrow> \<not> P (hd (strip_chars P s))"
  unfolding strip_chars_def
  using dropWhile_rev_hd[of P s] hd_dropWhile[of P s] by (cases "dropWhile P s = []") auto

lemma filter_dropWhile:
  "(\<And>c. P c \<Longrightarrow> \<not> Q c) \<Longrightarrow> filter Q (dropWhile P s) = filter Q s"
  by (induction s) auto

lemma filter_strip_chars:
  assumes "\<And>c. P c \<Longrightarrow> \<not> Q c"
  shows "filter Q (strip_chars P s) = filter Q s"
proof -
  have "filter Q (rev (dropWhile P (rev (dropWhile P s)))) = rev (filter Q (dropWhile P (rev (dropWhile P s))))"
    by (simp add: rev_filter)
  also have "\<dots> = rev (filter Q (rev (dropWhile P s)))"
    using assms by (simp add: filter_dropWhile)
  also have "\<dots> = filter Q (dropWhile P s)" by (simp add: rev_filter)
  also have "\<dots> = filter Q s" using assms by (simp add: filter_dropWhile)
  finally show ?thesis by (simp add: strip_chars_def)
qed

lemma alnum_safe: "alnum_char c \<Longrightarrow> safe_char c"
  by (simp add: safe_char_def)

lemma alnum_not_dash: "\<not> alnum_char CHR ''-''"
  by (simp add: alnum_char_def)

lemma filter_sub_unsafe: "filter alnum_char (sub_unsafe s) = filter alnum_char s"
proof (induction s rule: sub_unsafe.induct)
  case 1
  then show ?case by simp
next
  case (2 c cs)
  show ?case
  proof (cases "safe_char c")
    case True
    then show ?thesis using 2 by simp
  next
    case False
    then have nc: "\<not> alnum_char c" using alnum_safe by blast
    have "filter alnum_char (dropWhile (\<lambda>d. \<not> safe_char d) cs) = filter alnum_char cs"
      by (rule filter_dropWhile) (use alnum_safe in blast)
    then show ?thesis using 2 False nc by (simp add: alnum_not_dash)
  qed
qed

lemma safe_not_alnum_separator: "safe_char c \<Longrightarrow> \<not> alnum_char c \<Longrightarrow> separator_char c"
  by (auto simp: safe_char_def separator_char_def)

lemma separator_not_alnum: "separator_char c \<Longrightarrow> \<not> alnum_char c"
  by (auto simp: separator_char_def alnum_char_def)

lemma space_not_alnum: "is_space c \<Longrightarrow> \<not> alnum_char c"
  by (auto simp: is_space_def alnum_char_def)

lemma strip_chars_all:
  assumes "\<And>c. c \<in> set s \<Longrightarrow> P c"
  shows "strip_chars P s = []"
proof -
  have d: "dropWhile P s = []" using assms by simp
  show ?thesis unfolding strip_chars_def d by simp
qed

lemma sub_unsafe_run:
  assumes "safe_char a" "u \<noteq> []" "\<And>c. c \<in> set u \<Longrightarrow> \<not> safe_char c" "safe_char b"
  shows "sub_unsafe (a # u @ b # rest) = a # CHR ''-'' # sub_unsafe (b # rest)"
proof -
  obtain c cs where u: "u = c # cs" using assms(2) by (cases u) auto
  have "dropWhile (\<lambda>d. \<not> safe_char d) (cs @ b # rest) = b # rest"
    using assms(3,4) u by (simp add: dropWhile_append)
  then show ?thesis using assms(1,3) u by simp
qed

lemma sub_unsafe_safe_word:
  "\<forall>c\<in>set w. safe_char c \<Longrightarrow> sub_unsafe (w @ rest) = w @ sub_unsafe rest"
  by (induction w) auto

lemma sub_unsafe_gap:
  assumes "g \<noteq> []" "\<forall>c\<in>set g. \<not> safe_char c" "rest = [] \<or> safe_char (hd rest)"
  shows "sub_unsafe (g @ rest) = CHR ''-'' # sub_unsafe rest"
proof -
  obtain c cs where g: "g = c # cs" using assms(1) by (cases g) auto
  have "dropWhile (\<lambda>d. \<not> safe_char d) (cs @ rest) = rest"
    using assms(2,3) g by (cases rest) (auto simp: dropWhile_append)
  then show ?thesis using assms(2) g by simp
qed

lemma sub_unsafe_tail:
  assumes "\<forall>c\<in>set post. \<not> safe_char c"
  shows "sub_unsafe post = (if post = [] then [] else ''-'')"
proof (cases "post = []")
  case True
  then show ?thesis by simp
next
  case False
  then show ?thesis using sub_unsafe_gap [of post "[]"] assms by simp
qed

lemma weave_hd_safe:
  assumes "ws \<noteq> []" "\<forall>w\<in>set ws. w \<noteq> [] \<and> (\<forall>c\<in>set w. safe_char c)"
  shows "weave ws gs @ post \<noteq> [] \<and> safe_char (hd (weave ws gs @ post))"
proof -
  obtain w ws' where ws: "ws = w # ws'" using assms(1) by (cases ws) auto
  have w: "w \<noteq> []" "safe_char (hd w)" using assms(2) ws by auto
  show ?thesis
  proof (cases ws')
    case Nil
    then show ?thesis using w ws by simp
  next
    case (Cons w' ws'')
    then show ?thesis using w ws by (cases gs) auto
  qed
qed

lemma sub_unsafe_weave:
  assumes "ws \<noteq> []" "length gs + 1 = length ws"
    "\<forall>w\<in>set ws. w \<noteq> [] \<and> (\<forall>c\<in>set w. safe_char c)"
    "\<forall>g\<in>set gs. g \<noteq> [] \<and> (\<forall>c\<in>set g. \<not> safe_char c)"
    "\<forall>c\<in>set post. \<not> safe_char c"
  shows "sub_unsafe (weave ws gs @ post) = join_with ''-'' ws @ (if post = [] then [] else ''-'')"
  using assms
proof (induction ws gs rule: weave.induct)
  case (1 w w' ws g gs)
  have tl: "sub_unsafe (weave (w' # ws) gs @ post)
              = join_with ''-'' (w' # ws) @ (if post = [] then [] else ''-'')"
    using 1 by simp
  have hd: "weave (w' # ws) gs @ post \<noteq> [] \<and> safe_char (hd (weave (w' # ws) gs @ post))"
    using weave_hd_safe [of "w' # ws" gs post] 1(4) by simp
  have "sub_unsafe (weave (w # w' # ws) (g # gs) @ post)
          = w @ sub_unsafe (g @ (weave (w' # ws) gs @ post))"
    using sub_unsafe_safe_word [of w] 1(4) by simp
  also have "\<dots> = w @ CHR ''-'' # sub_unsafe (weave (w' # ws) gs @ post)"
    using sub_unsafe_gap [of g "weave (w' # ws) gs @ post"] 1(5) hd by simp
  finally show ?case using tl by simp
qed (simp_all add: sub_unsafe_safe_word sub_unsafe_tail)

lemma strip_chars_Cons: "P d \<Longrightarrow> strip_chars P (d # s) = strip_chars P s"
  by (simp add: strip_chars_def)

lemma strip_chars_snoc: "P d \<Longrightarrow> strip_chars P (s @ [d]) = strip_chars P s"
proof (cases "\<forall>c\<in>set s. P c")
  case True
  assume "P d"
  have d1: "dropWhile P s = []" using True by simp
  have d2: "dropWhile P (s @ [d]) = []" using True \<open>P d\<close> by simp
  show ?thesis unfolding strip_chars_def d1 d2 by simp
next
  case False
  assume "P d"
  have "dropWhile P (s @ [d]) = dropWhile P s @ [d]"
    using False by (simp add: dropWhile_append)
  then show ?thesis unfolding strip_chars_def using \<open>P d\<close> by simp
qed

lemma dropWhile_keep: "W \<noteq> [] \<Longrightarrow> \<not> P (hd W) \<Longrightarrow> dropWhile P (pre @ W @ post) = dropWhile P pre @ W @ post"
  by (cases W) (auto simp: dropWhile_append)

lemma strip_space_around:
  assumes "W \<noteq> []" "\<not> is_space (hd W)" "\<not> is_space (last W)"
  shows "strip_chars is_space (pre @ W @ post)
           = dropWhile is_space pre @ W @ rev (dropWhile is_space (rev post))"
proof -
  have a: "dropWhile is_space (pre @ W @ post) = dropWhile is_space pre @ W @ post"
    using assms(1,2) by (rule dropWhile_keep)
  have r: "rev W \<noteq> []" "\<not> is_space (hd (rev W))"
    using assms(1,3) by (simp_all add: hd_rev)
  have b: "dropWhile is_space (rev post @ rev W @ rev (dropWhile is_space pre))
             = dropWhile is_space (rev post) @ rev W @ rev (dropWhile is_space pre)"
    using r by (rule dropWhile_keep)
  show ?thesis unfolding strip_chars_def a using b by simp
qed

lemma space_not_safe: "is_space c \<Longrightarrow> \<not> safe_char c"
  by (auto simp: is_space_def safe_char_def alnum_char_def)

lemma weave_last_safe:
  assumes "ws \<noteq> []" "\<forall>w\<in>set ws. w \<noteq> [] \<and> (\<forall>c\<in>set w. safe_char c)"
  shows "safe_char (last (weave ws gs))"
  using assms
proof (induction ws gs rule: weave.induct)
  case (1 w w' ws g gs)
  have "weave (w' # ws) gs \<noteq> []" using weave_hd_safe [of "w' # ws" gs "[]"] 1(3) by simp
  then show ?case using 1 by simp
qed auto

lemma dashes_around:
  assumes "sub_unsafe (W @ post) = J @ (if post = [] then [] else ''-'')"
    "W \<noteq> []" "safe_char (hd W)" "\<forall>c\<in>set pre. \<not> safe_char c"
  shows "strip_chars separator_char (sub_unsafe (pre @ W @ post)) = strip_chars separator_char J"
proof -
  have d: "separator_char CHR ''-''" by (simp add: separator_char_def)
  have t: "strip_chars separator_char (sub_unsafe (W @ post)) = strip_chars separator_char J"
    using assms(1) d strip_chars_snoc [of separator_char "CHR ''-''" J] by simp
  show ?thesis
  proof (cases "pre = []")
    case True
    then show ?thesis using t by simp
  next
    case False
    have "W @ post \<noteq> [] \<and> safe_char (hd (W @ post))" using assms(2,3) by simp
    then have "sub_unsafe (pre @ W @ post) = CHR ''-'' # sub_unsafe (W @ post)"
      using sub_unsafe_gap [of pre "W @ post"] assms(4) False by simp
    then show ?thesis using t d strip_chars_Cons [of separator_char "CHR ''-''"] by simp
  qed
qed

lemma sanitize_slug_weave:
  assumes "ws \<noteq> []" "length gs + 1 = length ws"
    "\<forall>w\<in>set ws. w \<noteq> [] \<and> (\<forall>c\<in>set w. safe_char c)"
    "\<forall>g\<in>set gs. g \<noteq> [] \<and> (\<forall>c\<in>set g. \<not> safe_char c)"
    "\<forall>c\<in>set pre. \<not> safe_char c" "\<forall>c\<in>set post. \<not> safe_char c"
  shows "sanitize_slug (pre @ weave ws gs @ post)
           = or_paper (strip_chars separator_char (join_with ''-'' ws))"
proof -
  define W where "W = weave ws gs"
  define pre' where "pre' = dropWhile is_space pre"
  define post' where "post' = rev (dropWhile is_space (rev post))"
  have pre': "\<forall>c\<in>set pre'. \<not> safe_char c"
    unfolding pre'_def using assms(5) set_dropWhileD by fastforce
  have post': "\<forall>c\<in>set post'. \<not> safe_char c"
    unfolding post'_def using assms(6) set_dropWhileD by fastforce
  have W: "W \<noteq> []" "safe_char (hd W)"
    unfolding W_def using weave_hd_safe [of ws gs "[]"] assms(1,3) by auto
  have lastW: "safe_char (last W)"
    unfolding W_def using assms(1,3) by (rule weave_last_safe)
  have s: "strip_chars is_space (pre @ W @ post) = pre' @ W @ post'"
    unfolding pre'_def post'_def
    using strip_space_around [of W pre post] W lastW space_not_safe by blast
  have w: "sub_unsafe (W @ post') = join_with ''-'' ws @ (if post' = [] then [] else ''-'')"
    unfolding W_def using sub_unsafe_weave [OF assms(1,2,3,4) post'] .
  have "strip_chars separator_char (sub_unsafe (pre' @ W @ post'))
          = strip_chars separator_char (join_with ''-'' ws)"
    using w W pre' by (rule dashes_around)
  then show ?thesis
    unfolding W_def [symmetric] by (simp add: sanitize_slug_def or_paper_def s Let_def)
qed

text \<open>The shape of a slug, and what is kept of the input.\<close>

lemma sanitize_slug_shape:
  "sanitize_slug raw \<noteq> [] \<and>
   set (sanitize_slug raw) \<subseteq> Collect safe_char \<and>
   \<not> separator_char (hd (sanitize_slug raw)) \<and>
   \<not> separator_char (last (sanitize_slug raw)) \<and>
   (if filter alnum_char raw = [] then sanitize_slug raw = ''paper''
    else filter alnum_char (sanitize_slug raw) = filter alnum_char raw)"
proof -
  define c1 where "c1 = sub_unsafe (strip_chars is_space raw)"
  define c2 where "c2 = strip_chars separator_char c1"
  have res: "sanitize_slug raw = (if c2 = [] then ''paper'' else c2)"
    by (simp add: sanitize_slug_def c1_def c2_def)
  have safe1: "set c1 \<subseteq> Collect safe_char" unfolding c1_def by (rule set_sub_unsafe)
  have safe2: "set c2 \<subseteq> Collect safe_char" using safe1 set_strip_chars[of separator_char c1] unfolding c2_def by blast
  have al1: "filter alnum_char c1 = filter alnum_char raw"
    unfolding c1_def using filter_strip_chars[of is_space alnum_char raw] space_not_alnum
    by (simp add: filter_sub_unsafe)
  have al2: "filter alnum_char c2 = filter alnum_char raw"
    unfolding c2_def using filter_strip_chars[of separator_char alnum_char c1] separator_not_alnum al1
    by simp
  have paper_safe: "set ''paper'' \<subseteq> Collect safe_char"
    by (simp add: safe_char_def alnum_char_def)
  have paper_ends: "\<not> separator_char (hd ''paper'') \<and> \<not> separator_char (last ''paper'')"
    by (simp add: separator_char_def)
  have none: "c2 = []" if "filter alnum_char raw = []"
  proof -
    have "\<And>c. c \<in> set c1 \<Longrightarrow> separator_char c"
    proof -
      fix c assume c: "c \<in> set c1"
      then have "\<not> alnum_char c" using al1 that by (metis filter_empty_conv)
      moreover have "safe_char c" using c safe1 by blast
      ultimately show "separator_char c" by (rule_tac safe_not_alnum_separator)
    qed
    then show ?thesis unfolding c2_def by (rule strip_chars_all)
  qed
  have some: "c2 \<noteq> []" if "filter alnum_char raw \<noteq> []"
    using al2 that by auto
  show ?thesis
  proof (cases "c2 = []")
    case True
    then have "filter alnum_char raw = []" using some by blast
    then show ?thesis using True res paper_safe paper_ends by simp
  next
    case False
    then have ne: "filter alnum_char raw \<noteq> []" using none by blast
    have "\<not> separator_char (hd c2)" "\<not> separator_char (last c2)"
      using False strip_chars_hd[of separator_char c1] strip_chars_last[of separator_char c1]
      unfolding c2_def by auto
    then show ?thesis using False res safe2 al2 ne by simp
  qed
qed

text \<open>
  Claim C8, as the code has it.  Whatever the raw string, \<open>sanitize_slug\<close> returns a
  non-empty string over the safe alphabet (ASCII letters and digits, dot, dash,
  underscore) that neither starts nor ends with a separator; the ASCII letters and digits
  of the input are kept, in order, and an input without any gives the default token
  \<^verbatim>\<open>paper\<close>.  A character outside the alphabet is not deleted: when the input is cut
  into its words over the alphabet \<open>ws\<close>, the runs \<open>gs\<close> of other characters between
  them, and such runs \<open>pre\<close> and \<open>post\<close> before the first and after the last word, the
  result is the words joined by one dash for each run between them, trimmed of separators
  at both ends (the default token if nothing is left).
\<close>

theorem sanitize_slug_contract:
  "sanitize_slug raw \<noteq> [] \<and>
   set (sanitize_slug raw) \<subseteq> Collect safe_char \<and>
   \<not> separator_char (hd (sanitize_slug raw)) \<and>
   \<not> separator_char (last (sanitize_slug raw)) \<and>
   (if filter alnum_char raw = [] then sanitize_slug raw = ''paper''
    else filter alnum_char (sanitize_slug raw) = filter alnum_char raw) \<and>
   (\<forall>ws gs pre post.
      ws \<noteq> [] \<and> length gs + 1 = length ws \<and>
      (\<forall>w\<in>set ws. w \<noteq> [] \<and> (\<forall>c\<in>set w. safe_char c)) \<and>
      (\<forall>g\<in>set gs. g \<noteq> [] \<and> (\<forall>c\<in>set g. \<not> safe_char c)) \<and>
      (\<forall>c\<in>set pre. \<not> safe_char c) \<and> (\<forall>c\<in>set post. \<not> safe_char c) \<and>
      raw = pre @ weave ws gs @ post \<longrightarrow>
      sanitize_slug raw = or_paper (strip_chars separator_char (join_with ''-'' ws)))"
proof -
  have "sanitize_slug raw = or_paper (strip_chars separator_char (join_with ''-'' ws))"
    if "ws \<noteq> []" "length gs + 1 = length ws"
      "\<forall>w\<in>set ws. w \<noteq> [] \<and> (\<forall>c\<in>set w. safe_char c)"
      "\<forall>g\<in>set gs. g \<noteq> [] \<and> (\<forall>c\<in>set g. \<not> safe_char c)"
      "\<forall>c\<in>set pre. \<not> safe_char c" "\<forall>c\<in>set post. \<not> safe_char c"
      "raw = pre @ weave ws gs @ post"
    for ws gs pre post
    unfolding that(7) using that(1-6) by (rule sanitize_slug_weave)
  then show ?thesis using sanitize_slug_shape [of raw] by blast
qed

theorem sanitize_slug_contract_witness:
  "sanitize_slug '' P1 draft!! '' = ''P1-draft'' \<and> sanitize_slug ''--..__'' = ''paper''"
proof -
  have h: "[''P1'', ''draft''] \<noteq> [] \<and> length ['' ''] + 1 = length [''P1'', ''draft''] \<and>
      (\<forall>w\<in>set [''P1'', ''draft'']. w \<noteq> [] \<and> (\<forall>c\<in>set w. safe_char c)) \<and>
      (\<forall>g\<in>set ['' '']. g \<noteq> [] \<and> (\<forall>c\<in>set g. \<not> safe_char c)) \<and>
      (\<forall>c\<in>set '' ''. \<not> safe_char c) \<and> (\<forall>c\<in>set ''!! ''. \<not> safe_char c) \<and>
      '' P1 draft!! '' = '' '' @ weave [''P1'', ''draft''] ['' ''] @ ''!! ''"
    by (simp add: safe_char_def alnum_char_def)
  have w: "sanitize_slug '' P1 draft!! ''
             = or_paper (strip_chars separator_char (join_with ''-'' [''P1'', ''draft'']))"
    using h sanitize_slug_contract [of "'' P1 draft!! ''"] by blast
  have e: "or_paper (strip_chars separator_char (join_with ''-'' [''P1'', ''draft''])) = ''P1-draft''"
    by (simp add: or_paper_def strip_chars_def separator_char_def)
  have n: "filter alnum_char ''--..__'' = []" by (simp add: alnum_char_def)
  have p: "sanitize_slug ''--..__'' = ''paper''"
    using n sanitize_slug_contract [of "''--..__''"] by simp
  show ?thesis using w e p by simp
qed

text \<open>
  Claim C8 as stated fails: on \<^verbatim>\<open>a b\<close> the code returns \<^verbatim>\<open>a-b\<close>, where stripping the
  character outside the alphabet would give \<^verbatim>\<open>ab\<close>.
\<close>

theorem sanitize_slug_not_strip:
  "sanitize_slug ''a b'' = ''a-b'' \<and> sanitizeIdentifier_spec ''a b'' = ''ab''"
  by code_simp

section \<open>Path containment\<close>

lemma relative_to_Inr: "(\<exists>r. relative_to p other = Inr r) \<longleftrightarrow> is_relative_to p other"
  by (simp add: relative_to_def)

lemma dotdot_free_foldl:
  "''..'' \<notin> set ps \<Longrightarrow> foldl dotdot_step acc ps = acc @ ps"
  by (induction ps arbitrary: acc) (auto simp: dotdot_step_def)

lemma lexical_resolve_canonical:
  assumes "anchor p = Root" "''..'' \<notin> set (parts p)"
    "\<not> list_ex (\<lambda>s. CHR 0x00 \<in> set s) (parts p)"
  shows "lexical_resolve cwd p = Inr p"
  using assms
  by (cases p) (simp add: lexical_resolve_def joinpath_def is_absolute_def dotdot_free_foldl)

text \<open>
  Claim C1, as the code has it.  \<open>resolve_under_root\<close> fails with a \<^verbatim>\<open>ValueError\<close> for
  every absolute path, and for a relative path exactly when its resolution is not the
  root or below it; otherwise it returns the resolution, which is absolute when the
  root is.  A relative path with \<^verbatim>\<open>..\<close> segments is judged by where it resolves, not
  by its segments.  \<open>resolve_repo_relative\<close> makes the same containment check, but
  resolves an absolute path as it is instead of rejecting it.
\<close>

theorem resolve_contract:
  "(is_absolute (Path_of raw_path) \<longrightarrow>
      (\<exists>m. resolve_under_root resolve root raw_path label = Inl (ValueError m))) \<and>
   (\<not> is_absolute (Path_of raw_path) \<and> resolve (joinpath root (Path_of raw_path)) = Inr a \<longrightarrow>
      resolve_under_root resolve root raw_path label =
        (if is_relative_to a root then Inr a
         else Inl (ValueError (label @ '' escapes '' @ str_path root @ '': '' @ raw_path)))) \<and>
   (resolve_under_root resolve root raw_path label = Inr b \<longrightarrow>
      is_relative_to b root \<and> (is_absolute root \<longrightarrow> is_absolute b) \<and>
      \<not> is_absolute (Path_of raw_path) \<and> resolve (joinpath root (Path_of raw_path)) = Inr b) \<and>
   (resolve_repo_relative resolve root raw_path = Inr (c, rel) \<longrightarrow>
      is_relative_to c root \<and> (is_absolute root \<longrightarrow> is_absolute c) \<and>
      rel = str_path (Path Relative (drop (length (parts root)) (parts c))) \<and>
      resolve (if is_absolute (Path_of raw_path) then Path_of raw_path
               else joinpath root (Path_of raw_path)) = Inr c) \<and>
   (resolve (if is_absolute (Path_of raw_path) then Path_of raw_path
             else joinpath root (Path_of raw_path)) = Inr c \<longrightarrow>
      resolve_repo_relative resolve root raw_path =
        (if is_relative_to c root
         then Inr (c, str_path (Path Relative (drop (length (parts root)) (parts c))))
         else Inl (ValueError (''Path must be under repository root: '' @ str_path c))))"
  by (auto simp: resolve_under_root_def resolve_repo_relative_def relative_to_def Let_def
        is_relative_to_def is_absolute_def split: sum.splits if_splits)

theorem resolve_contract_witness:
  "is_absolute (Path_of ''/etc/passwd'') \<and>
   (\<exists>m. resolve_under_root (lexical_resolve (Path Root [''repo''])) (Path Root [''repo''])
          ''/etc/passwd'' ''Output dir'' = Inl (ValueError m)) \<and>
   \<not> is_absolute (Path_of ''../b'') \<and>
   (\<exists>m. resolve_under_root (lexical_resolve (Path Root [''repo''])) (Path Root [''repo''])
      ''../b'' ''Output dir'' = Inl (ValueError m)) \<and>
   resolve_under_root (lexical_resolve (Path Root [''repo''])) (Path Root [''repo''])
      ''tmp/P1'' ''Output dir'' = Inr (Path Root [''repo'', ''tmp'', ''P1'']) \<and>
   is_relative_to (Path Root [''repo'', ''tmp'', ''P1'']) (Path Root [''repo'']) \<and>
   (\<exists>rel. resolve_repo_relative (lexical_resolve (Path Root [''repo''])) (Path Root [''repo''])
      ''/repo/papers/P1'' = Inr (Path Root [''repo'', ''papers'', ''P1''], rel))"
proof -
  let ?R = "lexical_resolve (Path Root [''repo''])"
  let ?root = "Path Root [''repo'']"
  have a: "is_absolute (Path_of ''/etc/passwd'')" by code_simp
  have w1: "\<exists>m. resolve_under_root ?R ?root ''/etc/passwd'' ''Output dir'' = Inl (ValueError m)"
    using a resolve_contract [where raw_path = "''/etc/passwd''" and resolve = ?R
        and root = ?root and label = "''Output dir''", THEN conjunct1]
    by blast
  have b: "\<not> is_absolute (Path_of ''../b'')" by code_simp
  have rb: "?R (joinpath ?root (Path_of ''../b'')) = Inr (Path Root [''b''])" by code_simp
  have nb: "\<not> is_relative_to (Path Root [''b'']) ?root" by code_simp
  have "resolve_under_root ?R ?root ''../b'' ''Output dir'' =
        (if is_relative_to (Path Root [''b'']) ?root then Inr (Path Root [''b''])
         else Inl (ValueError (''Output dir'' @ '' escapes '' @ str_path ?root @ '': '' @ ''../b'')))"
    using b rb resolve_contract [where raw_path = "''../b''" and resolve = ?R and root = ?root
        and label = "''Output dir''" and a = "Path Root [''b'']", THEN conjunct2, THEN conjunct1]
    by blast
  then have w2: "\<exists>m. resolve_under_root ?R ?root ''../b'' ''Output dir'' = Inl (ValueError m)"
    using nb by (simp only: if_False) blast
  have c: "\<not> is_absolute (Path_of ''tmp/P1'')" by code_simp
  have rc: "?R (joinpath ?root (Path_of ''tmp/P1'')) = Inr (Path Root [''repo'', ''tmp'', ''P1''])"
    by code_simp
  have yc: "is_relative_to (Path Root [''repo'', ''tmp'', ''P1'']) ?root" by code_simp
  have "resolve_under_root ?R ?root ''tmp/P1'' ''Output dir'' =
        (if is_relative_to (Path Root [''repo'', ''tmp'', ''P1'']) ?root
         then Inr (Path Root [''repo'', ''tmp'', ''P1''])
         else Inl (ValueError (''Output dir'' @ '' escapes '' @ str_path ?root @ '': '' @ ''tmp/P1'')))"
    using c rc resolve_contract [where raw_path = "''tmp/P1''" and resolve = ?R and root = ?root
        and label = "''Output dir''" and a = "Path Root [''repo'', ''tmp'', ''P1'']",
        THEN conjunct2, THEN conjunct1]
    by blast
  then have w3: "resolve_under_root ?R ?root ''tmp/P1'' ''Output dir''
                   = Inr (Path Root [''repo'', ''tmp'', ''P1''])"
    using yc by (simp only: if_True)
  have d: "is_absolute (Path_of ''/repo/papers/P1'')" by code_simp
  have rd: "?R (Path_of ''/repo/papers/P1'') = Inr (Path Root [''repo'', ''papers'', ''P1''])"
    by code_simp
  have yd: "is_relative_to (Path Root [''repo'', ''papers'', ''P1'']) ?root" by code_simp
  have rd': "?R (if is_absolute (Path_of ''/repo/papers/P1'') then Path_of ''/repo/papers/P1''
                 else joinpath ?root (Path_of ''/repo/papers/P1''))
               = Inr (Path Root [''repo'', ''papers'', ''P1''])"
    using d rd by (simp only: if_True)
  have "resolve_repo_relative ?R ?root ''/repo/papers/P1'' =
        (if is_relative_to (Path Root [''repo'', ''papers'', ''P1'']) ?root
         then Inr (Path Root [''repo'', ''papers'', ''P1''],
                   str_path (Path Relative (drop (length (parts ?root))
                      (parts (Path Root [''repo'', ''papers'', ''P1''])))))
         else Inl (ValueError (''Path must be under repository root: ''
                      @ str_path (Path Root [''repo'', ''papers'', ''P1'']))))"
    using rd' resolve_contract [where raw_path = "''/repo/papers/P1''" and resolve = ?R
        and root = ?root and c = "Path Root [''repo'', ''papers'', ''P1'']",
        THEN conjunct2, THEN conjunct2, THEN conjunct2, THEN conjunct2]
    by blast
  then have w4: "\<exists>rel. resolve_repo_relative ?R ?root ''/repo/papers/P1''
                   = Inr (Path Root [''repo'', ''papers'', ''P1''], rel)"
    using yd by (simp only: if_True) blast
  show ?thesis using a w1 b w2 w3 yc w4 by blast
qed

text \<open>
  Claim C1 as stated fails: the relative path \<^verbatim>\<open>a/../b\<close> has a \<^verbatim>\<open>..\<close> segment, and
  on a file system without symbolic links it is accepted under the root \<^verbatim>\<open>/repo\<close>.
\<close>

theorem resolve_dotdot_accepted:
  "''..'' \<in> set (parts (Path_of ''a/../b'')) \<and> \<not> is_absolute (Path_of ''a/../b'') \<and>
   resolve_under_root (lexical_resolve (Path Root [''repo''])) (Path Root [''repo''])
      ''a/../b'' ''Output dir'' = Inr (Path Root [''repo'', ''b''])"
  by code_simp

section \<open>Branch and worktree names are told apart by the process id\<close>




















section \<open>The sandbox manifest\<close>

lemma joinpath_relative:
  "\<not> is_absolute b \<Longrightarrow> joinpath a b = Path (anchor a) (parts a @ parts b)"
  by (simp add: joinpath_def)

lemma joinpath_under:
  "\<not> is_absolute b \<Longrightarrow> is_relative_to (joinpath a b) a"
  by (simp add: joinpath_def is_relative_to_def)

lemma is_relative_to_trans:
  "is_relative_to a b \<Longrightarrow> is_relative_to b c \<Longrightarrow> is_relative_to a c"
  by (auto simp: is_relative_to_def)

lemma is_relative_to_absolute:
  "is_relative_to a b \<Longrightarrow> is_absolute b \<Longrightarrow> is_absolute a"
  by (simp add: is_relative_to_def is_absolute_def)

lemma policy_names_relative:
  "\<not> is_absolute (Path_of ''SKILL.md'')" "\<not> is_absolute (Path_of ''references'')"
  "\<not> is_absolute (Path_of ''scripts'')"
  by (simp_all add: is_absolute_def Path_of_def anchor_of_def)

lemma resolve_contract_out:
  "resolve_under_root resolve root raw_path label = Inr b \<Longrightarrow>
     resolve (joinpath root (Path_of raw_path)) = Inr b \<and> is_relative_to b root"
  by (auto simp: resolve_under_root_def relative_to_def Let_def split: sum.splits if_splits)

text \<open>
  The manifest when nothing redirects the payload and the policy bundle: if their places
  in the worktree resolve to themselves and the output directory passed the containment
  check of \<open>resolve_under_root\<close>, the manifest is exactly: read-write the payload's place
  and the output directory, read-only the bundle's \<^verbatim>\<open>SKILL.md\<close>, \<^verbatim>\<open>references\<close> and
  \<^verbatim>\<open>scripts\<close>, working directory the payload's place; all five are absolute paths under
  the worktree.
\<close>

lemma build_sandbox_paths_canonical:
  assumes paper: "resolve (joinpath wt_path (Path_of paper_rel)) = Inr (joinpath wt_path (Path_of paper_rel))"
    and skill: "resolve (joinpath wt_path (Path_of skill_rel)) = Inr (joinpath wt_path (Path_of skill_rel))"
    and out: "resolve_under_root resolve wt_path output_dir label = Inr output_path"
    and rel: "\<not> is_absolute (Path_of paper_rel)" "\<not> is_absolute (Path_of skill_rel)"
    and wt: "is_absolute wt_path"
  shows "\<exists>paper_path skill_file references_dir scripts_dir.
      build_sandbox_paths resolve wt_path paper_rel skill_rel output_dir =
        Inr ([str_path paper_path, str_path output_path],
             [str_path skill_file, str_path references_dir, str_path scripts_dir],
             str_path paper_path) \<and>
      paper_path = joinpath wt_path (Path_of paper_rel) \<and>
      skill_file = joinpath (joinpath wt_path (Path_of skill_rel)) (Path_of ''SKILL.md'') \<and>
      references_dir = joinpath (joinpath wt_path (Path_of skill_rel)) (Path_of ''references'') \<and>
      scripts_dir = joinpath (joinpath wt_path (Path_of skill_rel)) (Path_of ''scripts'') \<and>
      list_all (\<lambda>p. is_absolute p \<and> is_relative_to p wt_path)
        [paper_path, output_path, skill_file, references_dir, scripts_dir]"
proof -
  let ?P = "joinpath wt_path (Path_of paper_rel)"
  let ?S = "joinpath wt_path (Path_of skill_rel)"
  have o1: "resolve (joinpath wt_path (Path_of output_dir)) = Inr output_path"
    and o2: "is_relative_to output_path wt_path"
    using out resolve_contract_out[of resolve wt_path output_dir label output_path] by blast+
  have b: "build_sandbox_paths resolve wt_path paper_rel skill_rel output_dir =
        Inr ([str_path ?P, str_path output_path],
             [str_path (joinpath ?S (Path_of ''SKILL.md'')),
              str_path (joinpath ?S (Path_of ''references'')),
              str_path (joinpath ?S (Path_of ''scripts''))],
             str_path ?P)"
    by (simp add: build_sandbox_paths_def paper skill o1)
  have p: "is_relative_to ?P wt_path" and s: "is_relative_to ?S wt_path"
    using rel joinpath_under by blast+
  have s1: "is_relative_to (joinpath ?S (Path_of ''SKILL.md'')) wt_path"
    and s2: "is_relative_to (joinpath ?S (Path_of ''references'')) wt_path"
    and s3: "is_relative_to (joinpath ?S (Path_of ''scripts'')) wt_path"
    using policy_names_relative joinpath_under s is_relative_to_trans by blast+
  show ?thesis
    using b p o2 s1 s2 s3 wt is_relative_to_absolute by simp
qed

lemma build_sandbox_paths_scenario:
  "build_sandbox_paths (lexical_resolve (Path Root [''repo'']))
      (Path Root [''repo'', ''.codex'', ''worktrees'', ''P1-20240101-120000-repo-4242''])
      ''papers/P1'' ''.codex/skills/cfst-paper-extractor'' ''tmp/P1'' =
    Inr ([''/repo/.codex/worktrees/P1-20240101-120000-repo-4242/papers/P1'',
          ''/repo/.codex/worktrees/P1-20240101-120000-repo-4242/tmp/P1''],
         [''/repo/.codex/worktrees/P1-20240101-120000-repo-4242/.codex/skills/cfst-paper-extractor/SKILL.md'',
          ''/repo/.codex/worktrees/P1-20240101-120000-repo-4242/.codex/skills/cfst-paper-extractor/references'',
          ''/repo/.codex/worktrees/P1-20240101-120000-repo-4242/.codex/skills/cfst-paper-extractor/scripts''],
         ''/repo/.codex/worktrees/P1-20240101-120000-repo-4242/papers/P1'')"
proof -
  let ?R = "lexical_resolve (Path Root [''repo''])"
  let ?wt = "Path Root [''repo'', ''.codex'', ''worktrees'', ''P1-20240101-120000-repo-4242'']"
  let ?out = "Path Root [''repo'', ''.codex'', ''worktrees'', ''P1-20240101-120000-repo-4242'',
                ''tmp'', ''P1'']"
  have paper: "?R (joinpath ?wt (Path_of ''papers/P1'')) = Inr (joinpath ?wt (Path_of ''papers/P1''))"
    by code_simp
  have skill: "?R (joinpath ?wt (Path_of ''.codex/skills/cfst-paper-extractor''))
                 = Inr (joinpath ?wt (Path_of ''.codex/skills/cfst-paper-extractor''))"
    by code_simp
  have out: "resolve_under_root ?R ?wt ''tmp/P1'' ''Output dir'' = Inr ?out"
    by code_simp
  have rel: "\<not> is_absolute (Path_of ''papers/P1'')"
     "\<not> is_absolute (Path_of ''.codex/skills/cfst-paper-extractor'')"
    by code_simp+
  have wt: "is_absolute ?wt" by code_simp
  have s1: "str_path (joinpath ?wt (Path_of ''papers/P1''))
              = ''/repo/.codex/worktrees/P1-20240101-120000-repo-4242/papers/P1''"
    by code_simp
  have s2: "str_path ?out = ''/repo/.codex/worktrees/P1-20240101-120000-repo-4242/tmp/P1''"
    by code_simp
  have s3: "str_path (joinpath (joinpath ?wt (Path_of ''.codex/skills/cfst-paper-extractor''))
               (Path_of ''SKILL.md''))
        = ''/repo/.codex/worktrees/P1-20240101-120000-repo-4242/.codex/skills/cfst-paper-extractor/SKILL.md''"
    by code_simp
  have s4: "str_path (joinpath (joinpath ?wt (Path_of ''.codex/skills/cfst-paper-extractor''))
               (Path_of ''references''))
        = ''/repo/.codex/worktrees/P1-20240101-120000-repo-4242/.codex/skills/cfst-paper-extractor/references''"
    by code_simp
  have s5: "str_path (joinpath (joinpath ?wt (Path_of ''.codex/skills/cfst-paper-extractor''))
               (Path_of ''scripts''))
        = ''/repo/.codex/worktrees/P1-20240101-120000-repo-4242/.codex/skills/cfst-paper-extractor/scripts''"
    by code_simp
  from build_sandbox_paths_canonical [OF paper skill out rel wt]
  obtain paper_path skill_file references_dir scripts_dir where
    m: "build_sandbox_paths ?R ?wt ''papers/P1'' ''.codex/skills/cfst-paper-extractor'' ''tmp/P1'' =
        Inr ([str_path paper_path, str_path ?out],
             [str_path skill_file, str_path references_dir, str_path scripts_dir],
             str_path paper_path)"
    and p: "paper_path = joinpath ?wt (Path_of ''papers/P1'')"
    and f: "skill_file = joinpath (joinpath ?wt (Path_of ''.codex/skills/cfst-paper-extractor''))
               (Path_of ''SKILL.md'')"
    and r: "references_dir = joinpath (joinpath ?wt (Path_of ''.codex/skills/cfst-paper-extractor''))
               (Path_of ''references'')"
    and c: "scripts_dir = joinpath (joinpath ?wt (Path_of ''.codex/skills/cfst-paper-extractor''))
               (Path_of ''scripts'')"
    by blast
  show ?thesis unfolding m p f r c s1 s2 s3 s4 s5 by (rule refl)
qed

text \<open>
  Claim C4: the read-write set, the read-only set and the working directory of the
  manifest are absolute paths inside the worktree.  \<open>build_sandbox_paths\<close> resolves the
  payload's and the bundle's places and lists what comes out, with no containment check
  (\<open>resolve_under_root\<close> is applied to the output directory only, in \<^verbatim>\<open>_create\<close>, and
  \<^verbatim>\<open>worker_sandbox._resolve_under\<close> checks all three).  When \<^verbatim>\<open>papers\<close> is a symbolic
  link in the checked-out worktree, the payload entry of the read-write set and the
  working directory are \<^verbatim>\<open>/data/papers/P1\<close>, outside the worktree, while the output
  directory \<^verbatim>\<open>tmp/P1\<close> passes the containment check.
\<close>

theorem build_sandbox_paths_escape:
  "build_sandbox_paths linked_resolve scenario_worktree
      ''papers/P1'' ''.codex/skills/cfst-paper-extractor'' ''tmp/P1'' =
    Inr ([''/data/papers/P1'',
          ''/repo/.codex/worktrees/P1-20240101-120000-repo-4242/tmp/P1''],
         [''/repo/.codex/worktrees/P1-20240101-120000-repo-4242/.codex/skills/cfst-paper-extractor/SKILL.md'',
          ''/repo/.codex/worktrees/P1-20240101-120000-repo-4242/.codex/skills/cfst-paper-extractor/references'',
          ''/repo/.codex/worktrees/P1-20240101-120000-repo-4242/.codex/skills/cfst-paper-extractor/scripts''],
         ''/data/papers/P1'') \<and>
   \<not> is_relative_to (Path_of ''/data/papers/P1'') scenario_worktree \<and>
   resolve_under_root linked_resolve scenario_worktree ''tmp/P1'' ''Output dir'' =
     Inr (joinpath scenario_worktree (Path_of ''tmp/P1''))"
  by code_simp


section \<open>The evaluator accepts arithmetic only\<close>

lemma bin_allowed: "ALLOWED_BIN_OPS ops op \<noteq> None \<longleftrightarrow> arithmetic_operator op"
  by (cases op) (simp_all add: ALLOWED_BIN_OPS_def arithmetic_operator_def)

lemma un_allowed: "ALLOWED_UNARY_OPS ops op \<noteq> None \<longleftrightarrow> sign_operator op"
  by (cases op) (simp_all add: ALLOWED_UNARY_OPS_def sign_operator_def)

lemma eval_node_only_arithmetic:
  "eval_node ops n variables = Inr v \<Longrightarrow> arithmetic_expr variables n"
proof (induction n arbitrary: v)
  case (ast_Constant c)
  then show ?case by (cases c) auto
next
  case (ast_Name x)
  then show ?case by (auto split: option.splits)
next
  case (ast_BinOp l op r)
  then show ?case using bin_allowed[of ops op]
    by (auto split: option.splits sum.splits)
next
  case (ast_UnaryOp op x)
  then show ?case using un_allowed[of ops op]
    by (auto split: option.splits sum.splits)
qed simp_all

lemma eval_node_unsupported:
  "\<not> supported_form variables n \<Longrightarrow> \<exists>m. eval_node ops n variables = Inl (ValueError m)"
proof (cases n)
  case (ast_Constant c)
  assume "\<not> supported_form variables n"
  then show ?thesis using ast_Constant by (cases c) auto
next
  case (ast_BinOp l op r)
  assume "\<not> supported_form variables n"
  then show ?thesis using ast_BinOp bin_allowed[of ops op] by auto
next
  case (ast_UnaryOp op x)
  assume "\<not> supported_form variables n"
  then show ?thesis using ast_UnaryOp un_allowed[of ops op] by auto
qed auto


lemma safe_eval_Inr:
  "safe_eval ast_parse ops expression variables = Inr v \<Longrightarrow>
     \<exists>body. ast_parse (strip_chars is_space expression) = Inr body \<and>
            eval_node ops body variables = Inr v"
  by (auto simp: safe_eval_def split: sum.splits exn.splits)

text \<open>
  What the evaluator accepts, whatever the float arithmetic and the parser:
  \<open>eval_node\<close> (and so \<open>safe_eval\<close>) returns a value only for an expression built from
  constants that pass the \<^verbatim>\<open>isinstance(value, (int, float))\<close> test, names bound in the
  variable map, the seven binary operations and unary plus and minus; a node of any
  other form (a call, an attribute, a comparison, a subscript, a constant that fails the
  test, an unknown name, another operator) raises a \<^verbatim>\<open>ValueError\<close> when it is reached,
  before any of its operands is evaluated.
\<close>

lemma safe_eval_only_arithmetic:
  "(eval_node ops n variables = Inr v \<longrightarrow> arithmetic_expr variables n) \<and>
   (\<not> supported_form variables n \<longrightarrow>
      (\<exists>m. eval_node ops n variables = Inl (ValueError m))) \<and>
   (safe_eval ast_parse ops expression variables = Inr v \<longrightarrow>
      (\<exists>body. ast_parse (strip_chars is_space expression) = Inr body \<and>
              arithmetic_expr variables body)) \<and>
   (ast_parse (strip_chars is_space expression) = Inr n \<and> \<not> supported_form variables n \<longrightarrow>
      (\<exists>m. safe_eval ast_parse ops expression variables = Inl (ValueError m)))"
proof (intro conjI impI)
  assume "eval_node ops n variables = Inr v"
  then show "arithmetic_expr variables n" by (rule eval_node_only_arithmetic)
next
  assume "\<not> supported_form variables n"
  then show "\<exists>m. eval_node ops n variables = Inl (ValueError m)"
    by (rule eval_node_unsupported)
next
  assume "safe_eval ast_parse ops expression variables = Inr v"
  then obtain body where b: "ast_parse (strip_chars is_space expression) = Inr body"
      and e: "eval_node ops body variables = Inr v"
    using safe_eval_Inr [of ast_parse ops expression variables v] by auto
  have "arithmetic_expr variables body" using e by (rule eval_node_only_arithmetic)
  then show "\<exists>body. ast_parse (strip_chars is_space expression) = Inr body \<and>
              arithmetic_expr variables body"
    using b by auto
next
  assume a: "ast_parse (strip_chars is_space expression) = Inr n \<and> \<not> supported_form variables n"
  then have "\<exists>m. eval_node ops n variables = Inl (ValueError m)"
    using eval_node_unsupported [of variables n ops] by simp
  then show "\<exists>m. safe_eval ast_parse ops expression variables = Inl (ValueError m)"
    using a by (simp add: safe_eval_def)
qed

lemma safe_eval_only_arithmetic_instance:
  "eval_node integer_ops
      (ast_BinOp (ast_Constant (IntConst 142)) ast_Div (ast_Name ''n'')) [''n'' \<mapsto> 2] = Inr 71 \<and>
   arithmetic_expr [''n'' \<mapsto> (2::int)]
      (ast_BinOp (ast_Constant (IntConst 142)) ast_Div (ast_Name ''n'')) \<and>
   \<not> supported_form [''n'' \<mapsto> (2::int)] (ast_Call (ast_Name ''abs'') [ast_Name ''n'']) \<and>
   (\<exists>m. eval_node integer_ops (ast_Call (ast_Name ''abs'') [ast_Name ''n''])
          [''n'' \<mapsto> 2] = Inl (ValueError m)) \<and>
   (\<exists>m. safe_eval (\<lambda>s. Inr (ast_Call (ast_Name ''abs'') [ast_Name ''n''])) integer_ops
          ''abs(n)'' [''n'' \<mapsto> 2] = Inl (ValueError m))"
proof -
  let ?vars = "[''n'' \<mapsto> (2::int)]"
  let ?good = "ast_BinOp (ast_Constant (IntConst 142)) ast_Div (ast_Name ''n'') :: int node"
  let ?bad = "ast_Call (ast_Name ''abs'') [ast_Name ''n''] :: int node"
  let ?parse = "\<lambda>s::string. (Inr ?bad :: exn + int node)"
  have e: "eval_node integer_ops ?good ?vars = Inr 71"
    by (simp add: integer_ops_def ALLOWED_BIN_OPS_def)
  have g: "arithmetic_expr ?vars ?good"
    using e safe_eval_only_arithmetic [where ops = integer_ops and n = ?good
        and variables = ?vars and v = 71, THEN conjunct1]
    by blast
  have b: "\<not> supported_form ?vars ?bad" by simp
  have r: "\<exists>m. eval_node integer_ops ?bad ?vars = Inl (ValueError m)"
    using b safe_eval_only_arithmetic [where ops = integer_ops and n = ?bad
        and variables = ?vars, THEN conjunct2, THEN conjunct1]
    by blast
  have p: "?parse (strip_chars is_space ''abs(n)'') = Inr ?bad" by simp
  have s: "\<exists>m. safe_eval ?parse integer_ops ''abs(n)'' ?vars = Inl (ValueError m)"
    using p b safe_eval_only_arithmetic [where ops = integer_ops and n = ?bad
        and variables = ?vars and ast_parse = ?parse and expression = "''abs(n)''",
        THEN conjunct2, THEN conjunct2, THEN conjunct2]
    by blast
  show ?thesis using e g b r s by blast
qed

text \<open>
  Claim C10: every expression form other than numeric constants, bound names, the
  seven binary operations and unary plus and minus raises a \<^verbatim>\<open>ValueError\<close> instead of
  being evaluated. The code breaks it at the Boolean constants: the test
  \<^verbatim>\<open>isinstance(node.value, (int, float))\<close> lets \<^verbatim>\<open>True\<close> and \<^verbatim>\<open>False\<close> through
  (\<^verbatim>\<open>bool\<close> is a subclass of \<^verbatim>\<open>int\<close>), where \<^verbatim>\<open>_is_number\<close> of
  \<^verbatim>\<open>validate_single_output.py\<close> excludes them. So \<^verbatim>\<open>safe_eval("True", {})\<close> is 1
  and \<^verbatim>\<open>safe_eval("True + True", {})\<close> is 2, with no \<^verbatim>\<open>ValueError\<close>; the parser is
  given here by the trees that \<^verbatim>\<open>ast.parse\<close> returns for these two expressions.
\<close>

theorem safe_eval_accepts_bool:
  "safe_eval (\<lambda>s. if s = ''True'' then Inr (ast_Constant (BoolConst True)) else
                Inr (ast_BinOp (ast_Constant (BoolConst True)) ast_Add
                       (ast_Constant (BoolConst True))))
     integer_ops ''True'' Map.empty = Inr 1 \<and>
   safe_eval (\<lambda>s. if s = ''True'' then Inr (ast_Constant (BoolConst True)) else
                Inr (ast_BinOp (ast_Constant (BoolConst True)) ast_Add
                       (ast_Constant (BoolConst True))))
     integer_ops '' True + True '' Map.empty = Inr 2 \<and>
   eval_node integer_ops (ast_Constant (BoolConst False)) Map.empty = Inr 0"
  by (simp add: safe_eval_def strip_chars_def is_space_def integer_ops_def ALLOWED_BIN_OPS_def)

section \<open>The checkpoint commit is guarded by the staged paths\<close>

lemma run_effect:
  "run sys cmd s = (p, s') \<Longrightarrow> trace s' = trace s @ [cmd] \<and> printed s' = printed s"
  by (auto simp: run_def split: prod.splits)

lemma fail_effect:
  "fail m c s = (r, s') \<Longrightarrow>
     r = Return c \<and> trace s' = trace s \<and> printed s' = printed s @ [FailLine m]"
  by (auto simp: fail_def)

lemma staged_files_effect:
  "staged_files sys root s = (xs, s') \<Longrightarrow>
     trace s' = trace s @ [diff_cmd root] \<and> printed s' = printed s"
  by (auto simp: staged_files_def diff_cmd_def Let_def split: prod.splits if_splits
        dest!: run_effect)

lemma current_branch_effect:
  "current_branch sys root s = (b, s') \<Longrightarrow>
     trace s' = trace s @ [[''git'', ''-C'', str_path root, ''rev-parse'', ''--abbrev-ref'', ''HEAD'']]"
  by (auto simp: current_branch_def Let_def split: prod.splits if_splits dest!: run_effect)

lemma check_remote_effect:
  "check_remote sys root r s = (b, s') \<Longrightarrow>
     trace s' = trace s @ [[''git'', ''-C'', str_path root, ''remote'', ''get-url'', r]]"
  by (auto simp: check_remote_def Let_def split: prod.splits dest!: run_effect)

lemma only_output_loop_filter:
  "only_output_loop (clean_output_dir out) paths bad =
     bad @ filter (\<lambda>p. \<not> under_output out p) paths"
  by (induction paths arbitrary: bad) (auto simp: under_output_def Let_def)

lemma only_output_files_eq:
  "only_output_files paths out =
     (list_all (under_output out) paths, filter (\<lambda>p. \<not> under_output out p) paths)"
  by (auto simp: only_output_files_def only_output_loop_filter Let_def list_all_iff
        filter_empty_conv)

lemma subcommands:
  "git_subcommand [g, c, r, ''rev-parse'', a, b] \<noteq> ''commit''"
  "git_subcommand [g, c, r, ''remote'', a, b] \<noteq> ''commit''"
  "git_subcommand [g, c, r, ''push'', a, b] \<noteq> ''commit''"
  "git_subcommand [g, c, r, ''add'', a, b] \<noteq> ''commit''"
  "git_subcommand [g, c, r, ''diff'', a, b] \<noteq> ''commit''"
  by (simp_all add: git_subcommand_def)

lemma push_step_no_commit:
  assumes "push_step sys args root summary s = (r, s')"
  shows "\<exists>cs. trace s' = trace s @ cs \<and> list_all (\<lambda>c. git_subcommand c \<noteq> ''commit'') cs"
proof -
  obtain branch s1 where b: "(case ck_branch args of
               Some b \<Rightarrow> (if b \<noteq> [] then (Some b, s) else current_branch sys root s)
             | None \<Rightarrow> current_branch sys root s) = (branch, s1)"
    by (cases "(case ck_branch args of
               Some b \<Rightarrow> (if b \<noteq> [] then (Some b, s) else current_branch sys root s)
             | None \<Rightarrow> current_branch sys root s)") auto
  have t1: "\<exists>cs. trace s1 = trace s @ cs \<and> list_all (\<lambda>c. git_subcommand c \<noteq> ''commit'') cs"
    using b by (auto split: option.splits if_splits dest!: current_branch_effect
                  simp: subcommands)
  show ?thesis
  proof (cases "branch = None \<or> branch = Some []")
    case True
    then have "trace s' = trace s1"
      using assms b by (auto simp: push_step_def Let_def split: prod.splits dest!: fail_effect)
    then show ?thesis using t1 by simp
  next
    case False
    then obtain bn where bn: "branch = Some bn" "bn \<noteq> []" by auto
    obtain found s2 where cr: "check_remote sys root (remote args) s1 = (found, s2)"
      by (cases "check_remote sys root (remote args) s1") auto
    have t2: "trace s2 = trace s1 @ [[''git'', ''-C'', str_path root, ''remote'', ''get-url'', remote args]]"
      using cr by (rule check_remote_effect)
    show ?thesis
    proof (cases found)
      case False
      then have "trace s' = trace s2"
        using assms b bn cr by (auto simp: push_step_def Let_def split: prod.splits dest!: fail_effect)
      then show ?thesis using t1 t2 by (auto simp: subcommands)
    next
      case True
      obtain pp s3 where pr: "run sys [''git'', ''-C'', str_path root, ''push'', remote args, bn] s2 = (pp, s3)"
        by (cases "run sys [''git'', ''-C'', str_path root, ''push'', remote args, bn] s2") auto
      have t3: "trace s3 = trace s2 @ [[''git'', ''-C'', str_path root, ''push'', remote args, bn]]"
        using pr run_effect by blast
      have "trace s' = trace s3"
        using assms b bn cr True pr
        by (auto simp: push_step_def Let_def split: prod.splits if_splits dest!: fail_effect)
      then show ?thesis using t1 t2 t3 by (auto simp: subcommands)
    qed
  qed
qed

lemma commit_step_eq:
  assumes add: "run sys (add_cmd root args) s1 = (add_proc, s2)" "returncode add_proc = 0"
    and staged: "staged_files sys root s2 = (staged, s3)"
  shows "commit_step sys args root summary s1 =
     (if staged = [] then
        (Inr (dict_set summary ''commit_skipped'' (JStr ''no staged output changes'')), s3)
      else if \<not> list_all (under_output (ck_output_dir args)) staged then
        (Inl (Return 1),
         s3\<lparr>printed := printed s3 @ [FailLine (non_output_message
               (filter (\<lambda>p. \<not> under_output (ck_output_dir args) p) staged))]\<rparr>)
      else
        (case sys_format sys (message_template args) (processed_count args) of
           Inl e \<Rightarrow> (Inl (Uncaught e), s3)
         | Inr message \<Rightarrow>
             (let (commit_proc, s4) = run sys (commit_cmd root message) s3 in
              if returncode commit_proc \<noteq> 0 then
                (Inl (Return 1), s4\<lparr>printed := printed s4 @ [FailLine (proc_message commit_proc)]\<rparr>)
              else
                (Inr (dict_set (dict_set summary ''commit_done'' (JBool True))
                        ''commit_message'' (JStr message)), s4))))"
  by (simp add: commit_step_def add staged only_output_files_eq fail_def Let_def
        split: sum.splits prod.splits)

lemma checkpoint_main_due:
  assumes pos: "0 < processed_count args" "0 < commit_every args" "0 < push_every args"
    and root: "repo_root sys (sys_cwd sys (world s0)) s0 = (Inr (Some root), s1)"
    and due: "processed_count args mod commit_every args = 0"
  shows "\<exists>summary. checkpoint_main sys args s0 =
     (case commit_step sys args root summary s1 of
        (Inl r, s2) \<Rightarrow> (r, s2)
      | (Inr summary2, s2) \<Rightarrow>
          (case (if processed_count args mod push_every args = 0
                 then push_step sys args root summary2 s2 else (Inr summary2, s2)) of
             (Inl r, s3) \<Rightarrow> (r, s3)
           | (Inr summary3, s3) \<Rightarrow>
               (Return 0, s3\<lparr>printed := printed s3 @ [JsonLine summary3]\<rparr>)))"
  using pos by (simp add: checkpoint_main_def root due Let_def, blast)

text \<open>
  The guard on the paths as the script reads them: when a checkpoint commit is due and
  \<^verbatim>\<open>git add\<close> succeeded, then (1) if some path returned by \<open>staged_files\<close> fails the test
  of \<open>only_output_files\<close>, the script returns 1 with the \<^verbatim>\<open>[FAIL]\<close> line that lists the
  offending paths, having spawned nothing after \<^verbatim>\<open>git add\<close> and
  \<^verbatim>\<open>git diff --cached\<close>; and (2) a \<^verbatim>\<open>git commit\<close> is spawned only if \<open>staged_files\<close>
  returned paths and every one of them passes the test.
\<close>

lemma checkpoint_commit_guard:
  assumes pos: "0 < processed_count args" "0 < commit_every args" "0 < push_every args"
    and root: "repo_root sys (sys_cwd sys (world s0)) s0 = (Inr (Some root), s1)"
    and due: "processed_count args mod commit_every args = 0"
    and add: "run sys (add_cmd root args) s1 = (add_proc, s2)" "returncode add_proc = 0"
    and staged: "staged_files sys root s2 = (staged, s3)"
  shows
    "(\<not> list_all (under_output (ck_output_dir args)) staged \<longrightarrow>
        checkpoint_main sys args s0 =
          (Return 1,
           s3\<lparr>printed := printed s3 @ [FailLine (non_output_message
                 (filter (\<lambda>p. \<not> under_output (ck_output_dir args) p) staged))]\<rparr>) \<and>
        trace s3 = trace s1 @ [add_cmd root args, diff_cmd root]) \<and>
     (list_ex (\<lambda>c. git_subcommand c = ''commit'')
         (drop (length (trace s1)) (trace (snd (checkpoint_main sys args s0)))) \<longrightarrow>
        staged \<noteq> [] \<and> list_all (under_output (ck_output_dir args)) staged)"
proof -
  let ?bad = "s3\<lparr>printed := printed s3 @ [FailLine (non_output_message
                 (filter (\<lambda>p. \<not> under_output (ck_output_dir args) p) staged))]\<rparr>"
  obtain summary where m: "checkpoint_main sys args s0 =
     (case commit_step sys args root summary s1 of
        (Inl r, s2) \<Rightarrow> (r, s2)
      | (Inr summary2, s2) \<Rightarrow>
          (case (if processed_count args mod push_every args = 0
                 then push_step sys args root summary2 s2 else (Inr summary2, s2)) of
             (Inl r, s3) \<Rightarrow> (r, s3)
           | (Inr summary3, s3) \<Rightarrow>
               (Return 0, s3\<lparr>printed := printed s3 @ [JsonLine summary3]\<rparr>)))"
    using checkpoint_main_due[OF pos root due] by blast
  note c = commit_step_eq[OF add staged, of summary]
  have t2: "trace s2 = trace s1 @ [add_cmd root args]" using add(1) run_effect by blast
  have t3: "trace s3 = trace s1 @ [add_cmd root args, diff_cmd root]"
    using staged staged_files_effect t2 by fastforce
  have nc: "\<not> list_ex (\<lambda>c. git_subcommand c = ''commit'') [add_cmd root args, diff_cmd root]"
    by (simp add: add_cmd_def diff_cmd_def subcommands)
  have part1: "checkpoint_main sys args s0 = (Return 1, ?bad)"
    if "\<not> list_all (under_output (ck_output_dir args)) staged"
  proof -
    have "staged \<noteq> []" using that by auto
    then show ?thesis using that m c by simp
  qed
  have part2: "\<not> list_ex (\<lambda>c. git_subcommand c = ''commit'')
         (drop (length (trace s1)) (trace (snd (checkpoint_main sys args s0))))"
    if n: "staged = [] \<or> \<not> list_all (under_output (ck_output_dir args)) staged"
  proof (cases "staged = []")
    case False
    then have "\<not> list_all (under_output (ck_output_dir args)) staged" using n by blast
    then have "trace (snd (checkpoint_main sys args s0)) = trace s3" using part1 by simp
    then show ?thesis using t3 nc by simp
  next
    case True
    let ?sum = "dict_set summary ''commit_skipped'' (JStr ''no staged output changes'')"
    have cs: "commit_step sys args root summary s1 = (Inr ?sum, s3)" using c True by simp
    show ?thesis
    proof (cases "processed_count args mod push_every args = 0")
      case False
      then have "trace (snd (checkpoint_main sys args s0)) = trace s3" using m cs by simp
      then show ?thesis using t3 nc by simp
    next
      case pd: True
      obtain r s' where ps: "push_step sys args root ?sum s3 = (r, s')"
        by (cases "push_step sys args root ?sum s3") auto
      obtain cs' where tp: "trace s' = trace s3 @ cs'"
          and np: "list_all (\<lambda>c. git_subcommand c \<noteq> ''commit'') cs'"
        using push_step_no_commit[OF ps] by blast
      have "trace (snd (checkpoint_main sys args s0)) = trace s'"
        using m cs pd ps by (cases r) auto
      then have "drop (length (trace s1)) (trace (snd (checkpoint_main sys args s0)))
                   = [add_cmd root args, diff_cmd root] @ cs'"
        using tp t3 by simp
      then show ?thesis using nc np by (auto simp: list_ex_iff list_all_iff)
    qed
  qed
  show ?thesis using part1 part2 t3 by blast
qed

lemma checkpoint_commit_guard_instance:
  "fst (checkpoint_main toy_sys ck_args (start stray_world)) = Return 1 \<and>
   trace (snd (checkpoint_main toy_sys ck_args (start stray_world))) =
     [[''git'', ''-C'', ''/repo'', ''rev-parse'', ''--show-toplevel''],
      [''git'', ''-C'', ''/repo'', ''add'', ''--'', ''output''],
      [''git'', ''-C'', ''/repo'', ''diff'', ''--cached'', ''--name-only'']] \<and>
   t_commits (world (snd (checkpoint_main toy_sys ck_args (start stray_world)))) = []"
proof -
  let ?s0 = "start stray_world"
  let ?root = "Path Root [''repo'']"
  let ?s1 = "snd (repo_root toy_sys (sys_cwd toy_sys (world ?s0)) ?s0)"
  let ?add = "fst (run toy_sys (add_cmd ?root ck_args) ?s1)"
  let ?s2 = "snd (run toy_sys (add_cmd ?root ck_args) ?s1)"
  let ?staged = "fst (staged_files toy_sys ?root ?s2)"
  let ?s3 = "snd (staged_files toy_sys ?root ?s2)"
  have pos: "0 < processed_count ck_args" "0 < commit_every ck_args" "0 < push_every ck_args"
    by (simp_all add: ck_args_def)
  have due: "processed_count ck_args mod commit_every ck_args = 0" by (simp add: ck_args_def)
  have r: "fst (repo_root toy_sys (sys_cwd toy_sys (world ?s0)) ?s0) = Inr (Some ?root)"
    by code_simp
  then have root: "repo_root toy_sys (sys_cwd toy_sys (world ?s0)) ?s0 = (Inr (Some ?root), ?s1)"
    by (simp add: prod_eq_iff)
  have add: "run toy_sys (add_cmd ?root ck_args) ?s1 = (?add, ?s2)" by simp
  have rc: "returncode ?add = 0" by code_simp
  have staged: "staged_files toy_sys ?root ?s2 = (?staged, ?s3)" by simp
  have bad: "\<not> list_all (under_output (ck_output_dir ck_args)) ?staged" by code_simp
  have m: "checkpoint_main toy_sys ck_args ?s0 =
          (Return 1,
           ?s3\<lparr>printed := printed ?s3 @ [FailLine (non_output_message
                 (filter (\<lambda>p. \<not> under_output (ck_output_dir ck_args) p) ?staged))]\<rparr>)"
    and t: "trace ?s3 = trace ?s1 @ [add_cmd ?root ck_args, diff_cmd ?root]"
    using bad checkpoint_commit_guard [OF pos root due add rc staged] by blast+
  have t1: "trace ?s1 @ [add_cmd ?root ck_args, diff_cmd ?root] =
     [[''git'', ''-C'', ''/repo'', ''rev-parse'', ''--show-toplevel''],
      [''git'', ''-C'', ''/repo'', ''add'', ''--'', ''output''],
      [''git'', ''-C'', ''/repo'', ''diff'', ''--cached'', ''--name-only'']]"
    by code_simp
  have c: "t_commits (world ?s3) = []" by code_simp
  show ?thesis unfolding m using t t1 c by simp
qed

text \<open>
  Claim C9: a checkpoint commit is made only if every staged path lies under the output
  directory, and a staged path outside it makes the script fail before any commit.
  The code breaks it for a path that begins with white space: \<open>staged_files\<close> strips
  every line of \<^verbatim>\<open>git diff --cached --name-only\<close>, so the staged file
  \<^verbatim>\<open>" output/evil.py"\<close> (in a directory named \<^verbatim>\<open>output\<close> after a space, not the output
  directory) is read as \<^verbatim>\<open>output/evil.py\<close>, passes the test, and is committed: the
  script returns 0 after \<^verbatim>\<open>git commit\<close>.
\<close>

theorem checkpoint_commits_stray_path:
  "t_staged space_world = ['' output/evil.py''] \<and>
   \<not> is_relative_to (Path_of '' output/evil.py'') (Path_of (ck_output_dir ck_args)) \<and>
   fst (staged_files toy_sys (Path Root [''repo'']) (start space_world)) = [''output/evil.py''] \<and>
   fst (checkpoint_main toy_sys ck_args (start space_world)) = Return 0 \<and>
   trace (snd (checkpoint_main toy_sys ck_args (start space_world))) =
     [[''git'', ''-C'', ''/repo'', ''rev-parse'', ''--show-toplevel''],
      [''git'', ''-C'', ''/repo'', ''add'', ''--'', ''output''],
      [''git'', ''-C'', ''/repo'', ''diff'', ''--cached'', ''--name-only''],
      [''git'', ''-C'', ''/repo'', ''commit'', ''-m'', ''cfst-output: processed 10 papers'']] \<and>
   t_commits (world (snd (checkpoint_main toy_sys ck_args (start space_world))))
     = [''cfst-output: processed 10 papers'']"
  by code_simp


section \<open>A failed staging is rolled back\<close>

lemma stage_payload_failure_cases:
  "stage_payload sys paper_abs paper_rel skill_abs skill_rel wt_path output_dir w = (Some exc, w') \<longleftrightarrow>
     copy_tree sys paper_abs (joinpath wt_path (Path_of paper_rel)) w = (Some exc, w') \<or>
     (\<exists>w1. copy_tree sys paper_abs (joinpath wt_path (Path_of paper_rel)) w = (None, w1) \<and>
        (copy_tree sys skill_abs (joinpath wt_path (Path_of skill_rel)) w1 = (Some exc, w') \<or>
         (copy_tree sys skill_abs (joinpath wt_path (Path_of skill_rel)) w1 = (None, w') \<and>
            resolve_under_root (sys_resolve sys w') wt_path output_dir ''Output dir'' = Inl exc) \<or>
         (\<exists>w2 out. copy_tree sys skill_abs (joinpath wt_path (Path_of skill_rel)) w1 = (None, w2) \<and>
            resolve_under_root (sys_resolve sys w2) wt_path output_dir ''Output dir'' = Inr out \<and>
            sys_mkdir sys out w2 = (Some exc, w'))))"
  by (auto simp: stage_payload_def split: prod.splits option.splits sum.splits)




section \<open>Removing a worktree that is not there\<close>




section \<open>The launcher refuses a broken manifest and returns the worker's exit code\<close>

lemma sandbox_launch_cases:
  "sandbox_launch sys args bwrap_bin paper_abs paper_rel skill_abs skill_rel output_abs output_rel s
     = (r, s') \<Longrightarrow>
   trace s' = trace s \<or>
   (\<exists>w1. sys_mkdir sys output_abs (world s) = (None, w1) \<and>
      strip_dashdash (sb_worker_cmd args) \<noteq> [] \<and>
      sys_is_dir sys (world s) paper_abs \<and> sys_is_dir sys (world s) skill_abs \<and>
      sys_is_file sys (world s) (joinpath skill_abs (Path_of ''SKILL.md'')) \<and>
      sys_is_dir sys (world s) (joinpath skill_abs (Path_of ''references'')) \<and>
      sys_is_dir sys (world s) (joinpath skill_abs (Path_of ''scripts'')) \<and>
      trace s' = trace s @ [sandbox_cmd sys w1 bwrap_bin paper_abs paper_rel output_abs output_rel
                              skill_abs skill_rel (sb_cwd_mode args)
                              (strip_dashdash (sb_worker_cmd args))])"
  by (auto simp: sandbox_launch_def fail_def run_def Let_def
           split: if_splits prod.splits option.splits)

lemma sandbox_main_launch:
  assumes "sys_which sys (world s) ''bwrap'' = Some bwrap_bin" "bwrap_bin \<noteq> []"
    and "resolve_base_path sys (world s) (sys_cwd sys (world s)) (sb_worktree_path args)
           ''Worktree'' = Inr worktree_path"
      "sys_is_dir sys (world s) worktree_path"
    and "resolve_under (sys_resolve sys (world s)) worktree_path (sb_paper_dir_relpath args)
           ''Paper dir'' = Inr (paper_abs, paper_rel)"
    and "resolve_under (sys_resolve sys (world s)) worktree_path (sb_skill_dir_relpath args)
           ''Skill dir'' = Inr (skill_abs, skill_rel)"
    and "resolve_under (sys_resolve sys (world s)) worktree_path (sb_output_dir args)
           ''Output dir'' = Inr (output_abs, output_rel)"
  shows "sandbox_main sys args s =
           sandbox_launch sys args bwrap_bin paper_abs paper_rel skill_abs skill_rel
             output_abs output_rel s"
  using assms by (simp add: sandbox_main_def)

text \<open>The five checks, in their order, once the three directories are resolved.\<close>

lemma sandbox_refusals:
  assumes bwrap: "sys_which sys (world s) ''bwrap'' = Some bwrap_bin" "bwrap_bin \<noteq> []"
    and wt: "resolve_base_path sys (world s) (sys_cwd sys (world s)) (sb_worktree_path args)
               ''Worktree'' = Inr worktree_path"
      "sys_is_dir sys (world s) worktree_path"
    and paper: "resolve_under (sys_resolve sys (world s)) worktree_path (sb_paper_dir_relpath args)
                  ''Paper dir'' = Inr (paper_abs, paper_rel)"
    and skill: "resolve_under (sys_resolve sys (world s)) worktree_path (sb_skill_dir_relpath args)
                  ''Skill dir'' = Inr (skill_abs, skill_rel)"
    and out: "resolve_under (sys_resolve sys (world s)) worktree_path (sb_output_dir args)
                ''Output dir'' = Inr (output_abs, output_rel)"
  shows
    "(\<not> sys_is_dir sys (world s) paper_abs \<longrightarrow>
        sandbox_main sys args s =
          (Return 1, s\<lparr>printed := printed s @
             [FailLine (''Paper directory not found: '' @ str_path paper_abs)]\<rparr>)) \<and>
     (sys_is_dir sys (world s) paper_abs \<and> \<not> sys_is_dir sys (world s) skill_abs \<longrightarrow>
        sandbox_main sys args s =
          (Return 1, s\<lparr>printed := printed s @
             [FailLine (''Skill directory not found: '' @ str_path skill_abs)]\<rparr>)) \<and>
     (sys_is_dir sys (world s) paper_abs \<and> sys_is_dir sys (world s) skill_abs \<and>
      \<not> sys_is_file sys (world s) (joinpath skill_abs (Path_of ''SKILL.md'')) \<longrightarrow>
        sandbox_main sys args s =
          (Return 1, s\<lparr>printed := printed s @
             [FailLine (''Missing skill file: ''
                        @ str_path (joinpath skill_abs (Path_of ''SKILL.md'')))]\<rparr>)) \<and>
     (sys_is_dir sys (world s) paper_abs \<and> sys_is_dir sys (world s) skill_abs \<and>
      sys_is_file sys (world s) (joinpath skill_abs (Path_of ''SKILL.md'')) \<and>
      \<not> sys_is_dir sys (world s) (joinpath skill_abs (Path_of ''references'')) \<longrightarrow>
        sandbox_main sys args s =
          (Return 1, s\<lparr>printed := printed s @
             [FailLine (''Missing references directory: ''
                        @ str_path (joinpath skill_abs (Path_of ''references'')))]\<rparr>)) \<and>
     (sys_is_dir sys (world s) paper_abs \<and> sys_is_dir sys (world s) skill_abs \<and>
      sys_is_file sys (world s) (joinpath skill_abs (Path_of ''SKILL.md'')) \<and>
      sys_is_dir sys (world s) (joinpath skill_abs (Path_of ''references'')) \<and>
      \<not> sys_is_dir sys (world s) (joinpath skill_abs (Path_of ''scripts'')) \<longrightarrow>
        sandbox_main sys args s =
          (Return 1, s\<lparr>printed := printed s @
             [FailLine (''Missing scripts directory: ''
                        @ str_path (joinpath skill_abs (Path_of ''scripts'')))]\<rparr>)) \<and>
     (trace (snd (sandbox_main sys args s)) \<noteq> trace s \<longrightarrow>
        sys_is_dir sys (world s) paper_abs \<and> sys_is_dir sys (world s) skill_abs \<and>
        sys_is_file sys (world s) (joinpath skill_abs (Path_of ''SKILL.md'')) \<and>
        sys_is_dir sys (world s) (joinpath skill_abs (Path_of ''references'')) \<and>
        sys_is_dir sys (world s) (joinpath skill_abs (Path_of ''scripts'')) \<and>
        (\<exists>w1. sys_mkdir sys output_abs (world s) = (None, w1) \<and>
           trace (snd (sandbox_main sys args s)) =
             trace s @ [sandbox_cmd sys w1 bwrap_bin paper_abs paper_rel output_abs output_rel
                          skill_abs skill_rel (sb_cwd_mode args)
                          (strip_dashdash (sb_worker_cmd args))]))"
proof -
  note m = sandbox_main_launch [OF bwrap wt paper skill out]
  have five: "\<not> sys_is_dir sys (world s) paper_abs \<longrightarrow>
        sandbox_main sys args s =
          (Return 1, s\<lparr>printed := printed s @
             [FailLine (''Paper directory not found: '' @ str_path paper_abs)]\<rparr>)"
     "sys_is_dir sys (world s) paper_abs \<and> \<not> sys_is_dir sys (world s) skill_abs \<longrightarrow>
        sandbox_main sys args s =
          (Return 1, s\<lparr>printed := printed s @
             [FailLine (''Skill directory not found: '' @ str_path skill_abs)]\<rparr>)"
     "sys_is_dir sys (world s) paper_abs \<and> sys_is_dir sys (world s) skill_abs \<and>
      \<not> sys_is_file sys (world s) (joinpath skill_abs (Path_of ''SKILL.md'')) \<longrightarrow>
        sandbox_main sys args s =
          (Return 1, s\<lparr>printed := printed s @
             [FailLine (''Missing skill file: ''
                        @ str_path (joinpath skill_abs (Path_of ''SKILL.md'')))]\<rparr>)"
     "sys_is_dir sys (world s) paper_abs \<and> sys_is_dir sys (world s) skill_abs \<and>
      sys_is_file sys (world s) (joinpath skill_abs (Path_of ''SKILL.md'')) \<and>
      \<not> sys_is_dir sys (world s) (joinpath skill_abs (Path_of ''references'')) \<longrightarrow>
        sandbox_main sys args s =
          (Return 1, s\<lparr>printed := printed s @
             [FailLine (''Missing references directory: ''
                        @ str_path (joinpath skill_abs (Path_of ''references'')))]\<rparr>)"
     "sys_is_dir sys (world s) paper_abs \<and> sys_is_dir sys (world s) skill_abs \<and>
      sys_is_file sys (world s) (joinpath skill_abs (Path_of ''SKILL.md'')) \<and>
      sys_is_dir sys (world s) (joinpath skill_abs (Path_of ''references'')) \<and>
      \<not> sys_is_dir sys (world s) (joinpath skill_abs (Path_of ''scripts'')) \<longrightarrow>
        sandbox_main sys args s =
          (Return 1, s\<lparr>printed := printed s @
             [FailLine (''Missing scripts directory: ''
                        @ str_path (joinpath skill_abs (Path_of ''scripts'')))]\<rparr>)"
    unfolding m by (simp_all add: sandbox_launch_def fail_def Let_def)
  have spawned: "trace (snd (sandbox_main sys args s)) \<noteq> trace s \<longrightarrow>
        sys_is_dir sys (world s) paper_abs \<and> sys_is_dir sys (world s) skill_abs \<and>
        sys_is_file sys (world s) (joinpath skill_abs (Path_of ''SKILL.md'')) \<and>
        sys_is_dir sys (world s) (joinpath skill_abs (Path_of ''references'')) \<and>
        sys_is_dir sys (world s) (joinpath skill_abs (Path_of ''scripts'')) \<and>
        (\<exists>w1. sys_mkdir sys output_abs (world s) = (None, w1) \<and>
           trace (snd (sandbox_main sys args s)) =
             trace s @ [sandbox_cmd sys w1 bwrap_bin paper_abs paper_rel output_abs output_rel
                          skill_abs skill_rel (sb_cwd_mode args)
                          (strip_dashdash (sb_worker_cmd args))])"
  proof
    assume a: "trace (snd (sandbox_main sys args s)) \<noteq> trace s"
    obtain r s' where l: "sandbox_launch sys args bwrap_bin paper_abs paper_rel skill_abs skill_rel
                            output_abs output_rel s = (r, s')"
      by (cases "sandbox_launch sys args bwrap_bin paper_abs paper_rel skill_abs skill_rel
                   output_abs output_rel s")
    have t: "trace s' \<noteq> trace s" and e: "snd (sandbox_main sys args s) = s'"
      using a m l by simp_all
    show "sys_is_dir sys (world s) paper_abs \<and> sys_is_dir sys (world s) skill_abs \<and>
        sys_is_file sys (world s) (joinpath skill_abs (Path_of ''SKILL.md'')) \<and>
        sys_is_dir sys (world s) (joinpath skill_abs (Path_of ''references'')) \<and>
        sys_is_dir sys (world s) (joinpath skill_abs (Path_of ''scripts'')) \<and>
        (\<exists>w1. sys_mkdir sys output_abs (world s) = (None, w1) \<and>
           trace (snd (sandbox_main sys args s)) =
             trace s @ [sandbox_cmd sys w1 bwrap_bin paper_abs paper_rel output_abs output_rel
                          skill_abs skill_rel (sb_cwd_mode args)
                          (strip_dashdash (sb_worker_cmd args))])"
      unfolding e using sandbox_launch_cases [OF l] t by blast
  qed
  show ?thesis using five spawned by blast
qed


lemma sandbox_main_cases:
  "sandbox_main sys args s = (r, s') \<Longrightarrow>
   trace s' = trace s \<or>
   (\<exists>bwrap_bin worktree_path paper_abs paper_rel skill_abs skill_rel output_abs output_rel.
        sys_which sys (world s) ''bwrap'' = Some bwrap_bin \<and> bwrap_bin \<noteq> [] \<and>
        resolve_base_path sys (world s) (sys_cwd sys (world s)) (sb_worktree_path args)
          ''Worktree'' = Inr worktree_path \<and>
        sys_is_dir sys (world s) worktree_path \<and>
        resolve_under (sys_resolve sys (world s)) worktree_path (sb_paper_dir_relpath args)
          ''Paper dir'' = Inr (paper_abs, paper_rel) \<and>
        resolve_under (sys_resolve sys (world s)) worktree_path (sb_skill_dir_relpath args)
          ''Skill dir'' = Inr (skill_abs, skill_rel) \<and>
        resolve_under (sys_resolve sys (world s)) worktree_path (sb_output_dir args)
          ''Output dir'' = Inr (output_abs, output_rel) \<and>
        sandbox_launch sys args bwrap_bin paper_abs paper_rel skill_abs skill_rel
          output_abs output_rel s = (r, s'))"
  by (auto simp: sandbox_main_def fail_def split: option.splits sum.splits if_splits prod.splits)

lemma sandbox_main_spawned:
  assumes "trace (snd (sandbox_main sys args s)) \<noteq> trace s"
  shows "\<exists>bwrap_bin worktree_path paper_abs paper_rel skill_abs skill_rel output_abs output_rel w1.
        sys_which sys (world s) ''bwrap'' = Some bwrap_bin \<and> bwrap_bin \<noteq> [] \<and>
        resolve_base_path sys (world s) (sys_cwd sys (world s)) (sb_worktree_path args)
          ''Worktree'' = Inr worktree_path \<and>
        sys_is_dir sys (world s) worktree_path \<and>
        resolve_under (sys_resolve sys (world s)) worktree_path (sb_paper_dir_relpath args)
          ''Paper dir'' = Inr (paper_abs, paper_rel) \<and>
        resolve_under (sys_resolve sys (world s)) worktree_path (sb_skill_dir_relpath args)
          ''Skill dir'' = Inr (skill_abs, skill_rel) \<and>
        resolve_under (sys_resolve sys (world s)) worktree_path (sb_output_dir args)
          ''Output dir'' = Inr (output_abs, output_rel) \<and>
        sys_is_dir sys (world s) paper_abs \<and> sys_is_dir sys (world s) skill_abs \<and>
        sys_is_file sys (world s) (joinpath skill_abs (Path_of ''SKILL.md'')) \<and>
        sys_is_dir sys (world s) (joinpath skill_abs (Path_of ''references'')) \<and>
        sys_is_dir sys (world s) (joinpath skill_abs (Path_of ''scripts'')) \<and>
        sys_mkdir sys output_abs (world s) = (None, w1) \<and>
        strip_dashdash (sb_worker_cmd args) \<noteq> [] \<and>
        trace (snd (sandbox_main sys args s)) = trace s @ [sandbox_cmd sys w1 bwrap_bin paper_abs paper_rel output_abs output_rel
                     skill_abs skill_rel (sb_cwd_mode args) (strip_dashdash (sb_worker_cmd args))]"
proof -
  obtain r s' where m: "sandbox_main sys args s = (r, s')" by (cases "sandbox_main sys args s")
  have t: "trace s' \<noteq> trace s" using assms m by simp
  from sandbox_main_cases [OF m] t
  obtain bwrap_bin worktree_path paper_abs paper_rel skill_abs skill_rel output_abs output_rel
    where pre: "sys_which sys (world s) ''bwrap'' = Some bwrap_bin \<and> bwrap_bin \<noteq> [] \<and>
        resolve_base_path sys (world s) (sys_cwd sys (world s)) (sb_worktree_path args)
          ''Worktree'' = Inr worktree_path \<and>
        sys_is_dir sys (world s) worktree_path \<and>
        resolve_under (sys_resolve sys (world s)) worktree_path (sb_paper_dir_relpath args)
          ''Paper dir'' = Inr (paper_abs, paper_rel) \<and>
        resolve_under (sys_resolve sys (world s)) worktree_path (sb_skill_dir_relpath args)
          ''Skill dir'' = Inr (skill_abs, skill_rel) \<and>
        resolve_under (sys_resolve sys (world s)) worktree_path (sb_output_dir args)
          ''Output dir'' = Inr (output_abs, output_rel)"
      and l: "sandbox_launch sys args bwrap_bin paper_abs paper_rel skill_abs skill_rel
                output_abs output_rel s = (r, s')"
    by blast
  from sandbox_launch_cases [OF l] t
  obtain w1 where "sys_mkdir sys output_abs (world s) = (None, w1)"
      "strip_dashdash (sb_worker_cmd args) \<noteq> []"
      "sys_is_dir sys (world s) paper_abs \<and> sys_is_dir sys (world s) skill_abs \<and>
        sys_is_file sys (world s) (joinpath skill_abs (Path_of ''SKILL.md'')) \<and>
        sys_is_dir sys (world s) (joinpath skill_abs (Path_of ''references'')) \<and>
        sys_is_dir sys (world s) (joinpath skill_abs (Path_of ''scripts''))"
      "trace s' = trace s @ [sandbox_cmd sys w1 bwrap_bin paper_abs paper_rel output_abs output_rel
                     skill_abs skill_rel (sb_cwd_mode args) (strip_dashdash (sb_worker_cmd args))]"
    by blast
  then show ?thesis using pre m by (simp only: snd_conv) blast
qed

text \<open>
  Claim C5.  With \<^verbatim>\<open>bwrap\<close> found, the worktree a directory and the three directories
  resolved under it, the script checks, in this order, the paper directory, the skill
  directory, its \<^verbatim>\<open>SKILL.md\<close>, its \<^verbatim>\<open>references\<close> and its \<^verbatim>\<open>scripts\<close>; the first one
  missing ends the run with exit code 1 and a \<^verbatim>\<open>[FAIL]\<close> line that names it, and nothing
  is spawned.  If anything is spawned at all, the five were there, the output directory
  was created without an exception (\<^verbatim>\<open>mkdir(parents=True, exist_ok=True)\<close>), and the one
  command spawned is the \<^verbatim>\<open>bwrap\<close> command with the binds of the manifest and nothing
  wider.
\<close>

theorem sandbox_refuses_missing_path:
  "(\<forall>bwrap_bin worktree_path paper_abs paper_rel skill_abs skill_rel output_abs output_rel.
        sys_which sys (world s) ''bwrap'' = Some bwrap_bin \<and> bwrap_bin \<noteq> [] \<and>
        resolve_base_path sys (world s) (sys_cwd sys (world s)) (sb_worktree_path args)
          ''Worktree'' = Inr worktree_path \<and>
        sys_is_dir sys (world s) worktree_path \<and>
        resolve_under (sys_resolve sys (world s)) worktree_path (sb_paper_dir_relpath args)
          ''Paper dir'' = Inr (paper_abs, paper_rel) \<and>
        resolve_under (sys_resolve sys (world s)) worktree_path (sb_skill_dir_relpath args)
          ''Skill dir'' = Inr (skill_abs, skill_rel) \<and>
        resolve_under (sys_resolve sys (world s)) worktree_path (sb_output_dir args)
          ''Output dir'' = Inr (output_abs, output_rel) \<longrightarrow>
     (\<not> sys_is_dir sys (world s) paper_abs \<longrightarrow>
        sandbox_main sys args s =
          (Return 1, s\<lparr>printed := printed s @
             [FailLine (''Paper directory not found: '' @ str_path paper_abs)]\<rparr>)) \<and>
     (sys_is_dir sys (world s) paper_abs \<and> \<not> sys_is_dir sys (world s) skill_abs \<longrightarrow>
        sandbox_main sys args s =
          (Return 1, s\<lparr>printed := printed s @
             [FailLine (''Skill directory not found: '' @ str_path skill_abs)]\<rparr>)) \<and>
     (sys_is_dir sys (world s) paper_abs \<and> sys_is_dir sys (world s) skill_abs \<and>
      \<not> sys_is_file sys (world s) (joinpath skill_abs (Path_of ''SKILL.md'')) \<longrightarrow>
        sandbox_main sys args s =
          (Return 1, s\<lparr>printed := printed s @
             [FailLine (''Missing skill file: ''
                        @ str_path (joinpath skill_abs (Path_of ''SKILL.md'')))]\<rparr>)) \<and>
     (sys_is_dir sys (world s) paper_abs \<and> sys_is_dir sys (world s) skill_abs \<and>
      sys_is_file sys (world s) (joinpath skill_abs (Path_of ''SKILL.md'')) \<and>
      \<not> sys_is_dir sys (world s) (joinpath skill_abs (Path_of ''references'')) \<longrightarrow>
        sandbox_main sys args s =
          (Return 1, s\<lparr>printed := printed s @
             [FailLine (''Missing references directory: ''
                        @ str_path (joinpath skill_abs (Path_of ''references'')))]\<rparr>)) \<and>
     (sys_is_dir sys (world s) paper_abs \<and> sys_is_dir sys (world s) skill_abs \<and>
      sys_is_file sys (world s) (joinpath skill_abs (Path_of ''SKILL.md'')) \<and>
      sys_is_dir sys (world s) (joinpath skill_abs (Path_of ''references'')) \<and>
      \<not> sys_is_dir sys (world s) (joinpath skill_abs (Path_of ''scripts'')) \<longrightarrow>
        sandbox_main sys args s =
          (Return 1, s\<lparr>printed := printed s @
             [FailLine (''Missing scripts directory: ''
                        @ str_path (joinpath skill_abs (Path_of ''scripts'')))]\<rparr>))) \<and>
   (trace (snd (sandbox_main sys args s)) \<noteq> trace s \<longrightarrow>
      (\<exists>bwrap_bin worktree_path paper_abs paper_rel skill_abs skill_rel output_abs output_rel w1.
        sys_which sys (world s) ''bwrap'' = Some bwrap_bin \<and> bwrap_bin \<noteq> [] \<and>
        resolve_base_path sys (world s) (sys_cwd sys (world s)) (sb_worktree_path args)
          ''Worktree'' = Inr worktree_path \<and>
        sys_is_dir sys (world s) worktree_path \<and>
        resolve_under (sys_resolve sys (world s)) worktree_path (sb_paper_dir_relpath args)
          ''Paper dir'' = Inr (paper_abs, paper_rel) \<and>
        resolve_under (sys_resolve sys (world s)) worktree_path (sb_skill_dir_relpath args)
          ''Skill dir'' = Inr (skill_abs, skill_rel) \<and>
        resolve_under (sys_resolve sys (world s)) worktree_path (sb_output_dir args)
          ''Output dir'' = Inr (output_abs, output_rel) \<and>
        sys_is_dir sys (world s) paper_abs \<and> sys_is_dir sys (world s) skill_abs \<and>
        sys_is_file sys (world s) (joinpath skill_abs (Path_of ''SKILL.md'')) \<and>
        sys_is_dir sys (world s) (joinpath skill_abs (Path_of ''references'')) \<and>
        sys_is_dir sys (world s) (joinpath skill_abs (Path_of ''scripts'')) \<and>
        sys_mkdir sys output_abs (world s) = (None, w1) \<and>
        strip_dashdash (sb_worker_cmd args) \<noteq> [] \<and>
        trace (snd (sandbox_main sys args s)) = trace s @ [sandbox_cmd sys w1 bwrap_bin paper_abs paper_rel output_abs output_rel
                     skill_abs skill_rel (sb_cwd_mode args) (strip_dashdash (sb_worker_cmd args))]))"
proof (intro conjI allI impI)
  fix bwrap_bin worktree_path paper_abs paper_rel skill_abs skill_rel output_abs output_rel
  assume pre: "sys_which sys (world s) ''bwrap'' = Some bwrap_bin \<and> bwrap_bin \<noteq> [] \<and>
        resolve_base_path sys (world s) (sys_cwd sys (world s)) (sb_worktree_path args)
          ''Worktree'' = Inr worktree_path \<and>
        sys_is_dir sys (world s) worktree_path \<and>
        resolve_under (sys_resolve sys (world s)) worktree_path (sb_paper_dir_relpath args)
          ''Paper dir'' = Inr (paper_abs, paper_rel) \<and>
        resolve_under (sys_resolve sys (world s)) worktree_path (sb_skill_dir_relpath args)
          ''Skill dir'' = Inr (skill_abs, skill_rel) \<and>
        resolve_under (sys_resolve sys (world s)) worktree_path (sb_output_dir args)
          ''Output dir'' = Inr (output_abs, output_rel)"
  note r = sandbox_refusals [of sys s bwrap_bin args worktree_path paper_abs paper_rel
             skill_abs skill_rel output_abs output_rel]
  {
    assume "\<not> sys_is_dir sys (world s) paper_abs"
    then show "sandbox_main sys args s =
          (Return 1, s\<lparr>printed := printed s @
             [FailLine (''Paper directory not found: '' @ str_path paper_abs)]\<rparr>)"
      using pre r by blast
  next
    assume "sys_is_dir sys (world s) paper_abs \<and> \<not> sys_is_dir sys (world s) skill_abs"
    then show "sandbox_main sys args s =
          (Return 1, s\<lparr>printed := printed s @
             [FailLine (''Skill directory not found: '' @ str_path skill_abs)]\<rparr>)"
      using pre r by blast
  next
    assume "sys_is_dir sys (world s) paper_abs \<and> sys_is_dir sys (world s) skill_abs \<and>
      \<not> sys_is_file sys (world s) (joinpath skill_abs (Path_of ''SKILL.md''))"
    then show "sandbox_main sys args s =
          (Return 1, s\<lparr>printed := printed s @
             [FailLine (''Missing skill file: ''
                        @ str_path (joinpath skill_abs (Path_of ''SKILL.md'')))]\<rparr>)"
      using pre r by blast
  next
    assume "sys_is_dir sys (world s) paper_abs \<and> sys_is_dir sys (world s) skill_abs \<and>
      sys_is_file sys (world s) (joinpath skill_abs (Path_of ''SKILL.md'')) \<and>
      \<not> sys_is_dir sys (world s) (joinpath skill_abs (Path_of ''references''))"
    then show "sandbox_main sys args s =
          (Return 1, s\<lparr>printed := printed s @
             [FailLine (''Missing references directory: ''
                        @ str_path (joinpath skill_abs (Path_of ''references'')))]\<rparr>)"
      using pre r by blast
  next
    assume "sys_is_dir sys (world s) paper_abs \<and> sys_is_dir sys (world s) skill_abs \<and>
      sys_is_file sys (world s) (joinpath skill_abs (Path_of ''SKILL.md'')) \<and>
      sys_is_dir sys (world s) (joinpath skill_abs (Path_of ''references'')) \<and>
      \<not> sys_is_dir sys (world s) (joinpath skill_abs (Path_of ''scripts''))"
    then show "sandbox_main sys args s =
          (Return 1, s\<lparr>printed := printed s @
             [FailLine (''Missing scripts directory: ''
                        @ str_path (joinpath skill_abs (Path_of ''scripts'')))]\<rparr>)"
      using pre r by blast
  }
next
  assume "trace (snd (sandbox_main sys args s)) \<noteq> trace s"
  then show "\<exists>bwrap_bin worktree_path paper_abs paper_rel skill_abs skill_rel output_abs output_rel w1.
        sys_which sys (world s) ''bwrap'' = Some bwrap_bin \<and> bwrap_bin \<noteq> [] \<and>
        resolve_base_path sys (world s) (sys_cwd sys (world s)) (sb_worktree_path args)
          ''Worktree'' = Inr worktree_path \<and>
        sys_is_dir sys (world s) worktree_path \<and>
        resolve_under (sys_resolve sys (world s)) worktree_path (sb_paper_dir_relpath args)
          ''Paper dir'' = Inr (paper_abs, paper_rel) \<and>
        resolve_under (sys_resolve sys (world s)) worktree_path (sb_skill_dir_relpath args)
          ''Skill dir'' = Inr (skill_abs, skill_rel) \<and>
        resolve_under (sys_resolve sys (world s)) worktree_path (sb_output_dir args)
          ''Output dir'' = Inr (output_abs, output_rel) \<and>
        sys_is_dir sys (world s) paper_abs \<and> sys_is_dir sys (world s) skill_abs \<and>
        sys_is_file sys (world s) (joinpath skill_abs (Path_of ''SKILL.md'')) \<and>
        sys_is_dir sys (world s) (joinpath skill_abs (Path_of ''references'')) \<and>
        sys_is_dir sys (world s) (joinpath skill_abs (Path_of ''scripts'')) \<and>
        sys_mkdir sys output_abs (world s) = (None, w1) \<and>
        strip_dashdash (sb_worker_cmd args) \<noteq> [] \<and>
        trace (snd (sandbox_main sys args s)) = trace s @ [sandbox_cmd sys w1 bwrap_bin paper_abs paper_rel output_abs output_rel
                     skill_abs skill_rel (sb_cwd_mode args) (strip_dashdash (sb_worker_cmd args))]"
    by (rule sandbox_main_spawned)
qed

theorem sandbox_refuses_missing_path_witness:
  "sandbox_main toy_sys sb_args (start no_references_world) =
     (Return 1,
      \<lparr>world = no_references_world, trace = [],
       printed = [FailLine ''Missing references directory: /repo/.codex/worktrees/P1-20240101-120000-repo-4242/.codex/skills/cfst-paper-extractor/references'']\<rparr>)"
proof -
  let ?s = "start no_references_world"
  let ?wt = "scenario_worktree"
  let ?paper = "joinpath scenario_worktree (Path_of ''papers/P1'')"
  let ?skill = "joinpath scenario_worktree (Path_of ''.codex/skills/cfst-paper-extractor'')"
  let ?out = "joinpath scenario_worktree (Path_of ''tmp/P1'')"
  have bwrap: "sys_which toy_sys (world ?s) ''bwrap'' = Some ''/usr/bin/bwrap''"
      "''/usr/bin/bwrap'' \<noteq> []"
    by code_simp+
  have wt: "resolve_base_path toy_sys (world ?s) (sys_cwd toy_sys (world ?s))
              (sb_worktree_path sb_args) ''Worktree'' = Inr ?wt"
      "sys_is_dir toy_sys (world ?s) ?wt"
    by code_simp+
  have paper: "resolve_under (sys_resolve toy_sys (world ?s)) ?wt (sb_paper_dir_relpath sb_args)
                 ''Paper dir'' = Inr (?paper, ''papers/P1'')"
    by code_simp
  have skill: "resolve_under (sys_resolve toy_sys (world ?s)) ?wt (sb_skill_dir_relpath sb_args)
                 ''Skill dir'' = Inr (?skill, ''.codex/skills/cfst-paper-extractor'')"
    by code_simp
  have out: "resolve_under (sys_resolve toy_sys (world ?s)) ?wt (sb_output_dir sb_args)
               ''Output dir'' = Inr (?out, ''tmp/P1'')"
    by code_simp
  have present: "sys_is_dir toy_sys (world ?s) ?paper \<and> sys_is_dir toy_sys (world ?s) ?skill \<and>
      sys_is_file toy_sys (world ?s) (joinpath ?skill (Path_of ''SKILL.md'')) \<and>
      \<not> sys_is_dir toy_sys (world ?s) (joinpath ?skill (Path_of ''references''))"
    by code_simp
  have m: "sandbox_main toy_sys sb_args ?s =
          (Return 1, ?s\<lparr>printed := printed ?s @
             [FailLine (''Missing references directory: ''
                        @ str_path (joinpath ?skill (Path_of ''references'')))]\<rparr>)"
    using bwrap wt paper skill out present
      sandbox_refuses_missing_path [of toy_sys ?s sb_args, THEN conjunct1, rule_format,
        of "''/usr/bin/bwrap''" ?wt ?paper "''papers/P1''" ?skill
           "''.codex/skills/cfst-paper-extractor''" ?out "''tmp/P1''",
        THEN conjunct2, THEN conjunct2, THEN conjunct2, THEN conjunct1]
    by blast
  have str: "str_path (joinpath ?skill (Path_of ''references''))
      = ''/repo/.codex/worktrees/P1-20240101-120000-repo-4242/.codex/skills/cfst-paper-extractor/references''"
    by code_simp
  show ?thesis unfolding m str by (simp add: start_def)
qed





end
